theory Spec2Isabelle
  imports Complex_Main
begin

section \<open>Values crossing the protocol boundary\<close>

text \<open>
  The shared protocol package validates values of TypeScript type \<^verbatim>\<open>unknown\<close>: decoded
  message payloads. They are modelled as plain data; objects whose property reads run
  code come with \<open>safeParseRequestEnvelope\<close>, below. A string is a list of characters
  (code units below 256); a number is a double, kept as NaN, an infinity, or an exact
  rational; an object is the list of its own properties, the first binding of a key being
  the one a property read sees.
\<close>

datatype number = NaN | Infinity bool | Finite rat

datatype js_value =
    Undefined
  | Null
  | Boolean bool
  | Number number
  | String string
  | Array "js_value list"
  | Object "(string \<times> js_value) list"

text \<open>\<^verbatim>\<open>input[key]\<close>: a property read; a missing property reads as \<^verbatim>\<open>undefined\<close>.\<close>

fun get :: "js_value \<Rightarrow> string \<Rightarrow> js_value" where
  "get (Object kvs) key = (case map_of kvs key of Some v \<Rightarrow> v | None \<Rightarrow> Undefined)"
| "get _ key = Undefined"

text \<open>\<^verbatim>\<open>key in input\<close>.\<close>

fun has :: "js_value \<Rightarrow> string \<Rightarrow> bool" where
  "has (Object kvs) key = (map_of kvs key \<noteq> None)"
| "has _ key = False"

text \<open>\<^verbatim>\<open>typeof v === "object" && v !== null && !Array.isArray(v)\<close>.\<close>

fun isObject :: "js_value \<Rightarrow> bool" where
  "isObject (Object kvs) = True"
| "isObject _ = False"

text \<open>The values that \<^verbatim>\<open>!v\<close> maps to \<^verbatim>\<open>true\<close>.\<close>

fun falsy :: "js_value \<Rightarrow> bool" where
  "falsy Undefined = True"
| "falsy Null = True"
| "falsy (Boolean b) = (\<not> b)"
| "falsy (Number NaN) = True"
| "falsy (Number (Finite r)) = (r = 0)"
| "falsy (Number (Infinity neg)) = False"
| "falsy (String s) = (s = [])"
| "falsy (Array xs) = False"
| "falsy (Object kvs) = False"

text \<open>
  The static type of \<^verbatim>\<open>envelope.method\<close> is a string type; \<open>str\<close> reads a value at
  that type.
\<close>

fun str :: "js_value \<Rightarrow> string" where
  "str (String s) = s"
| "str _ = []"

section \<open>The schema library\<close>

text \<open>
  The schemas are built from the combinators of the zod library (version 4). A schema maps
  an input to a payload: the parsed value and the issues found. The model gives, for each
  combinator, the inputs it accepts, the value it returns, and the path at which it
  reports a problem. A chain of checks stops at the first check that fails, so a value
  carries at most one issue of its own; how many further issues the library would add at
  the same path is not modelled. An issue's message is the library's locale applied to
  the issue; the locale is a parameter.
\<close>

datatype PropertyKey = Key string | Index nat | Symbol string

datatype issue_code =
    invalid_type string
  | too_small string
  | too_big string
  | invalid_value "string list"
  | invalid_key

record zod_issue =
  zcode :: issue_code
  zinput :: js_value
  zpath :: "PropertyKey list"

type_synonym zod_locale = "zod_issue \<Rightarrow> string"

record payload =
  pvalue :: js_value
  pissues :: "zod_issue list"

type_synonym schema = "js_value \<Rightarrow> payload"

definition ok :: "js_value \<Rightarrow> payload" where
  "ok v = \<lparr>pvalue = v, pissues = []\<rparr>"

definition fail :: "issue_code \<Rightarrow> js_value \<Rightarrow> payload" where
  "fail c v = \<lparr>pvalue = v, pissues = [\<lparr>zcode = c, zinput = v, zpath = []\<rparr>]\<rparr>"

text \<open>\<^verbatim>\<open>z.string()\<close>, \<^verbatim>\<open>z.boolean()\<close>, \<^verbatim>\<open>z.number()\<close> (finite numbers only),
  \<^verbatim>\<open>z.unknown()\<close>, \<^verbatim>\<open>z.literal(s)\<close>, \<^verbatim>\<open>z.enum(values)\<close>.\<close>

fun z_string :: schema where
  "z_string (String s) = ok (String s)"
| "z_string v = fail (invalid_type ''string'') v"

fun z_boolean :: schema where
  "z_boolean (Boolean b) = ok (Boolean b)"
| "z_boolean v = fail (invalid_type ''boolean'') v"

fun z_number :: schema where
  "z_number (Number (Finite r)) = ok (Number (Finite r))"
| "z_number v = fail (invalid_type ''number'') v"

definition z_unknown :: schema where
  "z_unknown v = ok v"

definition z_literal :: "string \<Rightarrow> schema" where
  "z_literal lit v = (if v = String lit then ok v else fail (invalid_value [lit]) v)"

definition z_enum :: "string list \<Rightarrow> schema" where
  "z_enum vals v =
     (if v \<in> set (map String vals) then ok v else fail (invalid_value vals) v)"

text \<open>A check runs on the value of a schema that found no issue.\<close>

definition check :: "(js_value \<Rightarrow> payload) \<Rightarrow> schema \<Rightarrow> schema" where
  "check ch s v = (let p = s v in if pissues p = [] then ch (pvalue p) else p)"

text \<open>\<^verbatim>\<open>String.prototype.trim\<close>, on the white space and line terminators below 256.\<close>

definition isWhiteSpace :: "char \<Rightarrow> bool" where
  "isWhiteSpace c =
     (c \<in> set [CHR 0x09, CHR 0x0A, CHR 0x0B, CHR 0x0C, CHR 0x0D, CHR 0x20, CHR 0xA0])"

definition trim :: "string \<Rightarrow> string" where
  "trim s = rev (dropWhile isWhiteSpace (rev (dropWhile isWhiteSpace s)))"

fun trim_check :: "js_value \<Rightarrow> payload" where
  "trim_check (String s) = ok (String (trim s))"
| "trim_check v = ok v"

fun min_check :: "nat \<Rightarrow> js_value \<Rightarrow> payload" where
  "min_check n (String s) =
     (if n \<le> length s then ok (String s) else fail (too_small ''string'') (String s))"
| "min_check n v = ok v"

text \<open>\<^verbatim>\<open>.trim()\<close> and \<^verbatim>\<open>.min(n)\<close> on a string schema.\<close>

definition z_trim :: "schema \<Rightarrow> schema" where
  "z_trim = check trim_check"

definition z_min :: "nat \<Rightarrow> schema \<Rightarrow> schema" where
  "z_min n = check (min_check n)"

text \<open>\<^verbatim>\<open>Number.isInteger\<close>, and the safe integer bound \<^verbatim>\<open>Number.MAX_SAFE_INTEGER\<close>.\<close>

definition isInteger :: "rat \<Rightarrow> bool" where
  "isInteger r = (of_int \<lfloor>r\<rfloor> = r)"

definition MAX_SAFE_INTEGER :: rat where
  "MAX_SAFE_INTEGER = 2 ^ 53 - 1"

fun int_check :: "js_value \<Rightarrow> payload" where
  "int_check (Number (Finite r)) =
     (if \<not> isInteger r then fail (invalid_type ''int'') (Number (Finite r))
      else if MAX_SAFE_INTEGER < r then fail (too_big ''int'') (Number (Finite r))
      else if r < - MAX_SAFE_INTEGER then fail (too_small ''int'') (Number (Finite r))
      else ok (Number (Finite r)))"
| "int_check v = ok v"

fun positive_check :: "js_value \<Rightarrow> payload" where
  "positive_check (Number (Finite r)) =
     (if 0 < r then ok (Number (Finite r)) else fail (too_small ''number'') (Number (Finite r)))"
| "positive_check v = ok v"

text \<open>\<^verbatim>\<open>.int()\<close> and \<^verbatim>\<open>.positive()\<close> on a number schema.\<close>

definition z_int :: "schema \<Rightarrow> schema" where
  "z_int = check int_check"

definition z_positive :: "schema \<Rightarrow> schema" where
  "z_positive = check positive_check"

text \<open>\<^verbatim>\<open>.optional()\<close>: \<^verbatim>\<open>undefined\<close> passes, anything else goes to the inner schema.\<close>

definition z_optional :: "schema \<Rightarrow> schema" where
  "z_optional s v = (if v = Undefined then ok v else s v)"

text \<open>An issue found inside a property or an element gets the key put in front of its path.\<close>

definition prefixIssues :: "PropertyKey \<Rightarrow> zod_issue list \<Rightarrow> zod_issue list" where
  "prefixIssues k iss = map (\<lambda>i. i\<lparr>zpath := k # zpath i\<rparr>) iss"

text \<open>
  \<^verbatim>\<open>z.object(shape)\<close>: the input must be an object; every key of the shape is read from
  the input and parsed by its schema; keys outside the shape are dropped. A key whose
  parsed value is \<^verbatim>\<open>undefined\<close> is kept only if the input has it.
\<close>

definition object_entry :: "js_value \<Rightarrow> string \<times> payload \<Rightarrow> (string \<times> js_value) list" where
  "object_entry input kr =
     (if pvalue (snd kr) = Undefined
      then (if has input (fst kr) then [(fst kr, Undefined)] else [])
      else [(fst kr, pvalue (snd kr))])"

definition z_object :: "(string \<times> schema) list \<Rightarrow> schema" where
  "z_object shape input =
     (if isObject input then
        (let results = map (\<lambda>(key, el). (key, el (get input key))) shape in
         \<lparr>pvalue = Object (concat (map (object_entry input) results)),
          pissues = concat (map (\<lambda>(key, r). prefixIssues (Key key) (pissues r)) results)\<rparr>)
      else fail (invalid_type ''object'') input)"

text \<open>\<^verbatim>\<open>z.array(element)\<close>.\<close>

definition z_array :: "schema \<Rightarrow> schema" where
  "z_array el input =
     (case input of
        Array items \<Rightarrow>
          (let results = map el items in
           \<lparr>pvalue = Array (map pvalue results),
            pissues = concat (map (\<lambda>(i, r). prefixIssues (Index i) (pissues r))
                                 (enumerate 0 results))\<rparr>)
      | _ \<Rightarrow> fail (invalid_type ''array'') input)"

text \<open>
  \<^verbatim>\<open>z.record(keyType, valueType)\<close>: the input must be a plain object; every own key
  except \<^verbatim>\<open>__proto__\<close> is parsed by the key schema and its value by the value schema.
\<close>

fun ownKeys :: "js_value \<Rightarrow> string list" where
  "ownKeys (Object kvs) = map fst kvs"
| "ownKeys _ = []"

definition record_entry :: "schema \<Rightarrow> schema \<Rightarrow> js_value \<Rightarrow> string \<Rightarrow> payload" where
  "record_entry keyType valueType input key =
     (let keyResult = keyType (String key) in
      if pissues keyResult \<noteq> []
      then \<lparr>pvalue = Object [(str (pvalue keyResult), pvalue keyResult)],
            pissues = [\<lparr>zcode = invalid_key, zinput = String key, zpath = [Key key]\<rparr>]\<rparr>
      else (let result = valueType (get input key) in
            \<lparr>pvalue = Object [(str (pvalue keyResult), pvalue result)],
             pissues = prefixIssues (Key key) (pissues result)\<rparr>))"

fun entries :: "js_value \<Rightarrow> (string \<times> js_value) list" where
  "entries (Object kvs) = kvs"
| "entries _ = []"

definition z_record :: "schema \<Rightarrow> schema \<Rightarrow> schema" where
  "z_record keyType valueType input =
     (if isObject input then
        (let results = map (record_entry keyType valueType input)
                           (filter (\<lambda>key. key \<noteq> ''__proto__'') (ownKeys input)) in
         \<lparr>pvalue = Object (concat (map (\<lambda>r. entries (pvalue r)) results)),
          pissues = concat (map pissues results)\<rparr>)
      else fail (invalid_type ''record'') input)"

text \<open>\<^verbatim>\<open>schema.safeParse(raw)\<close>: success with the parsed data, or the issues.\<close>

datatype safe_parse_result = Success js_value | Failure "zod_issue list"

definition safeParse :: "schema \<Rightarrow> js_value \<Rightarrow> safe_parse_result" where
  "safeParse s raw =
     (let p = s raw in if pissues p = [] then Success (pvalue p) else Failure (pissues p))"

section \<open>constants.ts\<close>

definition PROTOCOL_VERSION :: string where
  "PROTOCOL_VERSION = ''1.0''"

definition ROLES :: "string list" where
  "ROLES = [''client'', ''node'', ''admin'']"

definition IDEMPOTENT_METHODS :: "string list" where
  "IDEMPOTENT_METHODS =
    [''message.send'', ''agent.run'', ''node.exec.request'', ''node.exec.approve'']"

definition RPC_METHODS :: "string list" where
  "RPC_METHODS =
    [''session.resolve'', ''message.send'', ''agent.run'', ''agent.cancel'', ''status.get'',
     ''node.exec.request'', ''node.exec.approve'', ''device.revoke'', ''plugin.disable'']"

section \<open>idempotency.ts\<close>

text \<open>\<^verbatim>\<open>(IDEMPOTENT_METHODS as readonly string[]).includes(method)\<close>\<close>

definition requiresIdempotencyKey :: "string \<Rightarrow> bool" where
  "requiresIdempotencyKey method = (method \<in> set IDEMPOTENT_METHODS)"

text \<open>
  The template literal \<^verbatim>\<open>`${deviceId}:${method}:${key}`\<close>: its pieces, joined in order.
\<close>

definition buildIdempotencyKey :: "string \<Rightarrow> string \<Rightarrow> string \<Rightarrow> string" where
  "buildIdempotencyKey deviceId method key = concat [deviceId, '':'', method, '':'', key]"

section \<open>types.ts\<close>

definition NonEmptyString :: schema where
  "NonEmptyString = z_min 1 (z_trim z_string)"

definition Identifier :: schema where
  "Identifier = z_min 1 z_string"

definition Timestamp :: schema where
  "Timestamp = z_positive (z_int z_number)"

definition ProtocolVersion :: schema where
  "ProtocolVersion = z_literal PROTOCOL_VERSION"

definition RoleSchema :: schema where
  "RoleSchema = z_enum ROLES"

section \<open>handshake.ts\<close>

definition ConnectSchema :: schema where
  "ConnectSchema = z_object
     [(''role'', RoleSchema),
      (''deviceId'', NonEmptyString),
      (''authToken'', NonEmptyString),
      (''nonce'', NonEmptyString),
      (''agentId'', z_optional NonEmptyString),
      (''capabilities'', z_optional (z_array NonEmptyString))]"

definition ConnectOkSchema :: schema where
  "ConnectOkSchema = z_object
     [(''connectionId'', Identifier),
      (''approved'', z_boolean),
      (''serverVersion'', NonEmptyString),
      (''heartbeatSec'', z_positive (z_int z_number)),
      (''sessionToken'', NonEmptyString)]"

definition ProtocolErrorSchema :: schema where
  "ProtocolErrorSchema = z_object
     [(''code'', z_int z_number),
      (''message'', z_string),
      (''retryable'', z_boolean)]"

section \<open>envelopes.ts\<close>

definition RequestEnvelopeSchema :: schema where
  "RequestEnvelopeSchema = z_object
     [(''version'', ProtocolVersion),
      (''id'', Identifier),
      (''method'', z_enum RPC_METHODS),
      (''params'', z_record z_string z_unknown),
      (''idempotencyKey'', z_optional NonEmptyString),
      (''ts'', Timestamp)]"

definition ResponseEnvelopeSchema :: schema where
  "ResponseEnvelopeSchema = z_object
     [(''version'', ProtocolVersion),
      (''id'', Identifier),
      (''result'', z_optional (z_record z_string z_unknown)),
      (''error'', z_optional ProtocolErrorSchema)]"

definition EventEnvelopeSchema :: schema where
  "EventEnvelopeSchema = z_object
     [(''version'', ProtocolVersion),
      (''event'', NonEmptyString),
      (''data'', z_unknown),
      (''ts'', Timestamp)]"

section \<open>errors.ts\<close>

record ProtocolIssue =
  path :: "PropertyKey list"
  message :: string

text \<open>
  What a \<^verbatim>\<open>throw\<close> can carry: a plain \<^verbatim>\<open>Error\<close> with its message, a
  \<^verbatim>\<open>ProtocolValidationError\<close> with its message and issues, or an
  \<^verbatim>\<open>IdempotencyKeyError\<close> with its message, issues and method.
\<close>

datatype exception =
    Error string
  | ProtocolValidationError string "ProtocolIssue list"
  | IdempotencyKeyError string "ProtocolIssue list" string

text \<open>The \<^verbatim>\<open>name\<close> each constructor sets.\<close>

fun name :: "exception \<Rightarrow> string" where
  "name (Error m) = ''Error''"
| "name (ProtocolValidationError m iss) = ''ProtocolValidationError''"
| "name (IdempotencyKeyError m iss meth) = ''IdempotencyKeyError''"

fun issues :: "exception \<Rightarrow> ProtocolIssue list" where
  "issues (Error m) = []"
| "issues (ProtocolValidationError m iss) = iss"
| "issues (IdempotencyKeyError m iss meth) = iss"

text \<open>
  \<^verbatim>\<open>error instanceof ProtocolValidationError\<close>: \<^verbatim>\<open>IdempotencyKeyError\<close> extends
  \<^verbatim>\<open>ProtocolValidationError\<close>, which extends \<^verbatim>\<open>Error\<close>.
\<close>

fun instanceof_ProtocolValidationError :: "exception \<Rightarrow> bool" where
  "instanceof_ProtocolValidationError (Error m) = False"
| "instanceof_ProtocolValidationError (ProtocolValidationError m iss) = True"
| "instanceof_ProtocolValidationError (IdempotencyKeyError m iss meth) = True"

text \<open>\<^verbatim>\<open>new IdempotencyKeyError(method)\<close>\<close>

definition new_IdempotencyKeyError :: "string \<Rightarrow> exception" where
  \<open>new_IdempotencyKeyError method =
     IdempotencyKeyError
       (concat [''Idempotency key is required for method "'', method, ''"''])
       [\<lparr>path = [Key ''idempotencyKey''],
         message = concat [''Required for method "'', method, ''"'']\<rparr>]
       method\<close>

section \<open>validate.ts\<close>

definition toProtocolPath :: "PropertyKey list \<Rightarrow> PropertyKey list" where
  "toProtocolPath p = filter (\<lambda>segment. case segment of Symbol s \<Rightarrow> False | _ \<Rightarrow> True) p"

definition toProtocolIssues :: "zod_locale \<Rightarrow> zod_issue list \<Rightarrow> ProtocolIssue list" where
  "toProtocolIssues L iss =
     map (\<lambda>issue. \<lparr>path = toProtocolPath (zpath issue), message = L issue\<rparr>) iss"

text \<open>A thrown exception is \<open>Inl\<close>, a returned value \<open>Inr\<close>.\<close>

definition parseRequestEnvelope :: "zod_locale \<Rightarrow> js_value \<Rightarrow> exception + js_value" where
  "parseRequestEnvelope L raw =
     (case safeParse RequestEnvelopeSchema raw of
        Failure iss \<Rightarrow>
          Inl (ProtocolValidationError ''Invalid request envelope'' (toProtocolIssues L iss))
      | Success envelope \<Rightarrow>
          if requiresIdempotencyKey (str (get envelope ''method''))
             \<and> falsy (get envelope ''idempotencyKey'')
          then Inl (new_IdempotencyKeyError (str (get envelope ''method'')))
          else Inr envelope)"

definition validateSchema :: "zod_locale \<Rightarrow> schema \<Rightarrow> js_value \<Rightarrow> string \<Rightarrow> exception + js_value" where
  "validateSchema L s data label =
     (case safeParse s data of
        Failure iss \<Rightarrow>
          Inl (ProtocolValidationError (concat [''Invalid '', label]) (toProtocolIssues L iss))
      | Success d \<Rightarrow> Inr d)"

section \<open>validate.ts on inputs that are not plain data\<close>

text \<open>
  \<^verbatim>\<open>parseRequestEnvelope\<close> and \<^verbatim>\<open>safeParseRequestEnvelope\<close> take
  \<^verbatim>\<open>raw: unknown\<close>. Such a value need not be plain data: it can be an object with
  accessor properties, and reading one of them runs its getter, which can throw. An own
  property is a data property, or an accessor whose getter throws.
\<close>

datatype property = Data js_value | Getter exception

datatype unknown = Plain js_value | Accessors "(string \<times> property) list"

text \<open>\<^verbatim>\<open>input[key]\<close> on an object with accessors: the value, or what the getter throws.\<close>

definition read :: "(string \<times> property) list \<Rightarrow> string \<Rightarrow> exception + js_value" where
  "read props key =
     (case map_of props key of
        None \<Rightarrow> Inr Undefined
      | Some (Data v) \<Rightarrow> Inr v
      | Some (Getter e) \<Rightarrow> Inl e)"

text \<open>
  \<^verbatim>\<open>z.object\<close> reads the keys of its shape from the input, in the order of the shape,
  and no other key. The library catches nothing, so the first getter that throws ends the
  parse with its exception.
\<close>

fun first_throw :: "(string \<times> property) list \<Rightarrow> string list \<Rightarrow> exception option" where
  "first_throw props [] = None"
| "first_throw props (key # keys) =
     (case read props key of Inl e \<Rightarrow> Some e | Inr v \<Rightarrow> first_throw props keys)"

text \<open>The data properties of an object: what its reads return when none of them throws.\<close>

definition data_properties :: "(string \<times> property) list \<Rightarrow> js_value" where
  "data_properties props =
     Object (concat (map (\<lambda>(key, p). case p of Data v \<Rightarrow> [(key, v)] | Getter e \<Rightarrow> []) props))"

text \<open>What a parser that reads \<open>keys\<close> from its input gets to see of the input.\<close>

definition read_through :: "string list \<Rightarrow> unknown \<Rightarrow> exception + js_value" where
  "read_through keys raw =
     (case raw of
        Plain v \<Rightarrow> Inr v
      | Accessors props \<Rightarrow>
          (case first_throw props keys of
             Some e \<Rightarrow> Inl e
           | None \<Rightarrow> Inr (data_properties props)))"

text \<open>The keys of the shape of \<open>RequestEnvelopeSchema\<close>.\<close>

definition RequestEnvelopeKeys :: "string list" where
  "RequestEnvelopeKeys =
     [''version'', ''id'', ''method'', ''params'', ''idempotencyKey'', ''ts'']"

text \<open>
  \<^verbatim>\<open>parseRequestEnvelope\<close> uses \<^verbatim>\<open>raw\<close> in one place, the call
  \<^verbatim>\<open>RequestEnvelopeSchema.safeParse(raw)\<close>, which is not inside a \<^verbatim>\<open>try\<close>: an
  exception of a getter leaves the function as it is. On plain data the function is
  \<open>parseRequestEnvelope\<close> above.
\<close>

definition parseRequestEnvelope_unknown :: "zod_locale \<Rightarrow> unknown \<Rightarrow> exception + js_value" where
  "parseRequestEnvelope_unknown L raw =
     (case read_through RequestEnvelopeKeys raw of
        Inl e \<Rightarrow> Inl e
      | Inr v \<Rightarrow> parseRequestEnvelope L v)"

datatype safe_result = success_true js_value | success_false exception

text \<open>
  The \<^verbatim>\<open>try\<close> around the call of \<^verbatim>\<open>parseRequestEnvelope\<close>: an instance of
  \<^verbatim>\<open>ProtocolValidationError\<close> is returned, anything else is thrown again.
\<close>

definition safeParseRequestEnvelope :: "zod_locale \<Rightarrow> unknown \<Rightarrow> exception + safe_result" where
  "safeParseRequestEnvelope L raw =
     (case parseRequestEnvelope_unknown L raw of
        Inr data \<Rightarrow> Inr (success_true data)
      | Inl error \<Rightarrow>
          if instanceof_ProtocolValidationError error then Inr (success_false error)
          else Inl error)"

text \<open>A locale to evaluate concrete inputs with: every issue gets the same message.\<close>

definition same_message :: zod_locale where
  "same_message issue = ''Invalid input''"

section \<open>Auxiliary notions\<close>

text \<open>
  The error codes enumerated by the protocol description. \<open>ProtocolErrorSchema\<close> does
  not refer to them.
\<close>

definition ErrorCode :: "string list" where
  "ErrorCode =
    [''INVALID_HANDSHAKE'', ''AUTH_FAILED'', ''NONCE_REUSED'', ''SESSION_TOKEN_EXPIRED'',
     ''DEVICE_NOT_APPROVED'', ''PERMISSION_DENIED'', ''METHOD_NOT_FOUND'', ''INVALID_PARAMS'',
     ''IDEMPOTENCY_KEY_REQUIRED'', ''IDEMPOTENCY_KEY_CONFLICT'', ''RATE_LIMITED'',
     ''MESSAGE_TOO_LARGE'', ''ORIGIN_REJECTED'', ''SESSION_NOT_FOUND'', ''AGENT_NOT_FOUND'',
     ''EXEC_DENIED'', ''PLUGIN_ERROR'', ''INTERNAL_ERROR'']"

text \<open>A schema that looks at one value only reports its issues at the empty path.\<close>

definition flat :: "schema \<Rightarrow> bool" where
  "flat s = (\<forall>v. \<forall>z \<in> set (pissues (s v)). zpath z = [])"

section \<open>Facts about the schema combinators\<close>

lemma ok_simps: "pissues (ok v) = []" "pvalue (ok v) = v"
  by (simp_all add: ok_def)

lemma fail_simps: "pissues (fail c v) \<noteq> []" "pvalue (fail c v) = v"
  "pissues (fail c v) = [\<lparr>zcode = c, zinput = v, zpath = []\<rparr>]"
  by (simp_all add: fail_def)

lemma prefixIssues_empty: "(prefixIssues k iss = []) = (iss = [])"
  by (simp add: prefixIssues_def)

lemma z_object_accepts:
  "pissues (z_object shape input) = [] \<longleftrightarrow>
     isObject input \<and> (\<forall>(key, el) \<in> set shape. pissues (el (get input key)) = [])"
  by (auto simp: z_object_def fail_simps prefixIssues_empty)

lemma z_object_not_object:
  "\<not> isObject input \<Longrightarrow>
     pissues (z_object shape input) = [\<lparr>zcode = invalid_type ''object'', zinput = input, zpath = []\<rparr>]"
  by (simp add: z_object_def fail_simps)

lemma map_of_object_entries:
  assumes "distinct (map fst shape)"
  shows "(case map_of (concat (map (object_entry input)
              (map (\<lambda>(key, el). (key, el (get input key))) shape))) k of
            Some v \<Rightarrow> v | None \<Rightarrow> Undefined)
         = (case map_of shape k of None \<Rightarrow> Undefined | Some el \<Rightarrow> pvalue (el (get input k)))"
  using assms
proof (induction shape)
  case Nil
  then show ?case by simp
next
  case (Cons a shape)
  obtain key el where a: "a = (key, el)" by (cases a)
  from Cons.prems have notin: "key \<notin> fst ` set shape" and d: "distinct (map fst shape)"
    by (auto simp: a)
  have none: "map_of shape key = None"
    using notin by (simp add: map_of_eq_None_iff)
  show ?case
  proof (cases "k = key")
    case True
    with Cons.IH [OF d] none show ?thesis
      by (auto simp: a object_entry_def)
  next
    case False
    with Cons.IH [OF d] show ?thesis
      by (auto simp: a object_entry_def)
  qed
qed

lemma get_z_object:
  assumes "isObject input" "distinct (map fst shape)"
  shows "get (pvalue (z_object shape input)) k
         = (case map_of shape k of None \<Rightarrow> Undefined | Some el \<Rightarrow> pvalue (el (get input k)))"
  using assms map_of_object_entries [of shape input k]
  by (simp add: z_object_def)

lemma check_accepts:
  "pissues (check ch s v) = [] \<longleftrightarrow> pissues (s v) = [] \<and> pissues (ch (pvalue (s v))) = []"
  by (simp add: check_def Let_def)

lemma check_value:
  "pissues (s v) = [] \<Longrightarrow> pvalue (check ch s v) = pvalue (ch (pvalue (s v)))"
  by (simp add: check_def Let_def)

lemma z_string_accepts: "pissues (z_string v) = [] \<longleftrightarrow> (\<exists>s. v = String s)"
  by (cases v) (simp_all add: ok_simps fail_simps)

lemma z_string_value: "pvalue (z_string v) = v"
  by (cases v) (simp_all add: ok_simps fail_simps)

lemma z_boolean_accepts: "pissues (z_boolean v) = [] \<longleftrightarrow> (\<exists>b. v = Boolean b)"
  by (cases v) (simp_all add: ok_simps fail_simps)

lemma z_boolean_value: "pvalue (z_boolean v) = v"
  by (cases v) (simp_all add: ok_simps fail_simps)

lemma z_number_accepts: "pissues (z_number v) = [] \<longleftrightarrow> (\<exists>r. v = Number (Finite r))"
  by (cases v rule: z_number.cases) (simp_all add: ok_simps fail_simps)

lemma z_number_value: "pvalue (z_number v) = v"
  by (cases v rule: z_number.cases) (simp_all add: ok_simps fail_simps)

lemma NonEmptyString_accepts:
  "pissues (NonEmptyString v) = [] \<longleftrightarrow> (\<exists>s. v = String s \<and> trim s \<noteq> [])"
  by (cases v)
     (auto simp: NonEmptyString_def z_min_def z_trim_def check_def Let_def ok_simps fail_simps
           simp flip: length_greater_0_conv)

lemma NonEmptyString_value:
  "pissues (NonEmptyString v) = [] \<Longrightarrow> pvalue (NonEmptyString v) = String (trim (str v))"
  by (cases v)
     (auto simp: NonEmptyString_def z_min_def z_trim_def check_def Let_def ok_simps fail_simps
           split: if_splits)

lemma Identifier_accepts:
  "pissues (Identifier v) = [] \<longleftrightarrow> (\<exists>s. v = String s \<and> s \<noteq> [])"
  by (cases v)
     (auto simp: Identifier_def z_min_def check_def Let_def ok_simps fail_simps
           simp flip: length_greater_0_conv)

lemma Identifier_value: "pvalue (Identifier v) = v"
  by (cases v)
     (auto simp: Identifier_def z_min_def check_def Let_def ok_simps fail_simps)

lemma z_int_number_accepts:
  "pissues (z_int z_number v) = [] \<longleftrightarrow>
     (\<exists>r. v = Number (Finite r) \<and> isInteger r \<and> \<bar>r\<bar> \<le> MAX_SAFE_INTEGER)"
  by (cases v rule: z_number.cases)
     (auto simp: z_int_def check_def Let_def ok_simps fail_simps)

lemma z_int_number_value: "pvalue (z_int z_number v) = v"
  by (cases v rule: z_number.cases)
     (auto simp: z_int_def check_def Let_def ok_simps fail_simps)

lemma Timestamp_accepts:
  "pissues (Timestamp v) = [] \<longleftrightarrow>
     (\<exists>r. v = Number (Finite r) \<and> isInteger r \<and> r \<le> MAX_SAFE_INTEGER \<and> 0 < r)"
  by (cases v rule: z_number.cases)
     (auto simp: Timestamp_def z_positive_def z_int_def check_def Let_def ok_simps fail_simps
                 MAX_SAFE_INTEGER_def)

lemma Timestamp_value: "pvalue (Timestamp v) = v"
  by (cases v rule: z_number.cases)
     (auto simp: Timestamp_def z_positive_def z_int_def check_def Let_def ok_simps fail_simps)

lemma ProtocolVersion_accepts:
  "pissues (ProtocolVersion v) = [] \<longleftrightarrow> v = String ''1.0''"
  by (simp add: ProtocolVersion_def z_literal_def PROTOCOL_VERSION_def ok_simps fail_simps)

lemma ProtocolVersion_value: "pvalue (ProtocolVersion v) = v"
  by (simp add: ProtocolVersion_def z_literal_def ok_simps fail_simps)

lemma z_enum_accepts:
  "pissues (z_enum vals v) = [] \<longleftrightarrow> (\<exists>m. v = String m \<and> m \<in> set vals)"
  by (auto simp: z_enum_def ok_simps fail_simps)

lemma z_enum_value: "pvalue (z_enum vals v) = v"
  by (simp add: z_enum_def ok_simps fail_simps)

lemma z_optional_accepts:
  "pissues (z_optional s v) = [] \<longleftrightarrow> v = Undefined \<or> pissues (s v) = []"
  by (simp add: z_optional_def ok_simps)

lemma z_optional_value:
  "pvalue (z_optional s v) = (if v = Undefined then Undefined else pvalue (s v))"
  by (simp add: z_optional_def ok_simps)

lemma record_string_unknown_accepts:
  "pissues (z_record z_string z_unknown v) = [] \<longleftrightarrow> isObject v"
  by (auto simp: z_record_def record_entry_def z_unknown_def Let_def ok_simps fail_simps
                 prefixIssues_def)

lemma indexed_issues_empty:
  "concat (map (\<lambda>(i, r). prefixIssues (Index i) (pissues r)) (enumerate n rs)) = []
     \<longleftrightarrow> (\<forall>r \<in> set rs. pissues r = [])"
  by (induction rs arbitrary: n) (auto simp: prefixIssues_empty)

lemma z_array_accepts:
  "pissues (z_array el v) = [] \<longleftrightarrow>
     (\<exists>items. v = Array items \<and> (\<forall>x \<in> set items. pissues (el x) = []))"
proof (cases v)
  case (Array items)
  then show ?thesis
    using indexed_issues_empty [of 0 "map el items"]
    by (simp add: z_array_def Let_def)
qed (simp_all add: z_array_def fail_simps)


lemma set_pissues_z_object:
  "isObject input \<Longrightarrow>
     set (pissues (z_object shape input))
     = (\<Union>(key, el) \<in> set shape.
          (\<lambda>i. i\<lparr>zpath := Key key # zpath i\<rparr>) ` set (pissues (el (get input key))))"
  by (auto simp: z_object_def prefixIssues_def)

lemma flat_z_object_paths:
  assumes obj: "isObject input" and fl: "\<forall>(key, el) \<in> set shape. flat el"
  shows "zpath ` set (pissues (z_object shape input))
         = (\<lambda>key. [Key key]) `
             {key. \<exists>el. (key, el) \<in> set shape \<and> pissues (el (get input key)) \<noteq> []}"
    (is "?l = ?r")
proof (rule set_eqI)
  fix p
  show "p \<in> ?l \<longleftrightarrow> p \<in> ?r"
  proof
    assume "p \<in> ?l"
    then obtain key el i where
      *: "(key, el) \<in> set shape" "i \<in> set (pissues (el (get input key)))"
         "p = Key key # zpath i"
      by (auto simp: set_pissues_z_object [OF obj])
    from fl *(1,2) have "zpath i = []" by (auto simp: flat_def)
    with * have "p = [Key key]" "pissues (el (get input key)) \<noteq> []" by auto
    with *(1) show "p \<in> ?r" by blast
  next
    assume "p \<in> ?r"
    then obtain key el where
      *: "(key, el) \<in> set shape" "pissues (el (get input key)) \<noteq> []" "p = [Key key]"
      by blast
    then obtain i where i: "i \<in> set (pissues (el (get input key)))"
      by (cases "pissues (el (get input key))") auto
    from fl *(1) i have "zpath i = []" by (auto simp: flat_def)
    have "i\<lparr>zpath := Key key # zpath i\<rparr> \<in> set (pissues (z_object shape input))"
      unfolding set_pissues_z_object [OF obj] using *(1) i by blast
    then have "zpath (i\<lparr>zpath := Key key # zpath i\<rparr>) \<in> ?l" by (rule imageI)
    with \<open>zpath i = []\<close> *(3) show "p \<in> ?l" by simp
  qed
qed

lemma flat_fail: "z \<in> set (pissues (fail c v)) \<Longrightarrow> zpath z = []"
  by (simp add: fail_def)

lemma flat_check:
  assumes "flat s" "\<And>v. \<forall>z \<in> set (pissues (ch v)). zpath z = []"
  shows "flat (check ch s)"
  using assms by (auto simp: flat_def check_def Let_def)

lemma flat_z_string: "flat z_string"
  unfolding flat_def
proof
  fix v show "\<forall>z \<in> set (pissues (z_string v)). zpath z = []"
    by (cases v) (simp_all add: ok_def fail_def)
qed

lemma flat_z_number: "flat z_number"
  unfolding flat_def
proof
  fix v show "\<forall>z \<in> set (pissues (z_number v)). zpath z = []"
    by (cases v rule: z_number.cases) (simp_all add: ok_def fail_def)
qed

lemma flat_z_boolean: "flat z_boolean"
  unfolding flat_def
proof
  fix v show "\<forall>z \<in> set (pissues (z_boolean v)). zpath z = []"
    by (cases v) (simp_all add: ok_def fail_def)
qed

lemma min_check_flat: "\<forall>z \<in> set (pissues (min_check n v)). zpath z = []"
  by (cases v) (simp_all add: ok_def fail_def)

lemma trim_check_flat: "\<forall>z \<in> set (pissues (trim_check v)). zpath z = []"
  by (cases v) (simp_all add: ok_def fail_def)

lemma int_check_flat: "\<forall>z \<in> set (pissues (int_check v)). zpath z = []"
  by (cases v rule: int_check.cases) (simp_all add: ok_def fail_def)

lemma positive_check_flat: "\<forall>z \<in> set (pissues (positive_check v)). zpath z = []"
  by (cases v rule: positive_check.cases) (simp_all add: ok_def fail_def)

lemma flat_NonEmptyString: "flat NonEmptyString"
  by (simp add: NonEmptyString_def z_min_def z_trim_def flat_check flat_z_string
        min_check_flat trim_check_flat)

lemma flat_Identifier: "flat Identifier"
  by (simp add: Identifier_def z_min_def flat_check flat_z_string min_check_flat)

lemma flat_Timestamp: "flat Timestamp"
  by (simp add: Timestamp_def z_positive_def z_int_def flat_check flat_z_number
        int_check_flat positive_check_flat)

lemma flat_ProtocolVersion: "flat ProtocolVersion"
  by (simp add: flat_def ProtocolVersion_def z_literal_def ok_def fail_def)

lemma flat_z_enum: "flat (z_enum vals)"
  by (simp add: flat_def z_enum_def ok_def fail_def)

lemma flat_z_optional: "flat s \<Longrightarrow> flat (z_optional s)"
  by (simp add: flat_def z_optional_def ok_def)

lemma flat_record_string_unknown: "flat (z_record z_string z_unknown)"
  by (auto simp: flat_def z_record_def record_entry_def z_unknown_def Let_def ok_def fail_def
        prefixIssues_def)

section \<open>What each schema accepts\<close>

lemma safeParse_Success_iff:
  "safeParse s raw = Success e \<longleftrightarrow> pissues (s raw) = [] \<and> e = pvalue (s raw)"
  by (auto simp: safeParse_def Let_def)

lemma safeParse_Failure_iff:
  "safeParse s raw = Failure zs \<longleftrightarrow> zs \<noteq> [] \<and> zs = pissues (s raw)"
  by (auto simp: safeParse_def Let_def)

lemma RequestEnvelopeSchema_accepts:
  "pissues (RequestEnvelopeSchema raw) = [] \<longleftrightarrow>
     isObject raw
     \<and> get raw ''version'' = String ''1.0''
     \<and> (\<exists>s. get raw ''id'' = String s \<and> s \<noteq> [])
     \<and> (\<exists>m. get raw ''method'' = String m \<and> m \<in> set RPC_METHODS)
     \<and> isObject (get raw ''params'')
     \<and> (get raw ''idempotencyKey'' = Undefined
          \<or> (\<exists>s. get raw ''idempotencyKey'' = String s \<and> trim s \<noteq> []))
     \<and> (\<exists>r. get raw ''ts'' = Number (Finite r) \<and> isInteger r \<and> r \<le> MAX_SAFE_INTEGER \<and> 0 < r)"
  by (simp add: RequestEnvelopeSchema_def z_object_accepts ProtocolVersion_accepts
        Identifier_accepts z_enum_accepts record_string_unknown_accepts z_optional_accepts
        NonEmptyString_accepts Timestamp_accepts)

lemma RequestEnvelopeSchema_method:
  "isObject raw \<Longrightarrow> get (pvalue (RequestEnvelopeSchema raw)) ''method'' = get raw ''method''"
  by (simp add: RequestEnvelopeSchema_def get_z_object z_enum_value)

lemma RequestEnvelopeSchema_version:
  "isObject raw \<Longrightarrow> get (pvalue (RequestEnvelopeSchema raw)) ''version'' = get raw ''version''"
  by (simp add: RequestEnvelopeSchema_def get_z_object ProtocolVersion_value)

lemma RequestEnvelopeSchema_idempotencyKey:
  "isObject raw \<Longrightarrow> get (pvalue (RequestEnvelopeSchema raw)) ''idempotencyKey''
     = (if get raw ''idempotencyKey'' = Undefined then Undefined
        else pvalue (NonEmptyString (get raw ''idempotencyKey'')))"
  by (simp add: RequestEnvelopeSchema_def get_z_object z_optional_value)

lemma ResponseEnvelopeSchema_accepts:
  "pissues (ResponseEnvelopeSchema raw) = [] \<longleftrightarrow>
     isObject raw
     \<and> get raw ''version'' = String ''1.0''
     \<and> (\<exists>s. get raw ''id'' = String s \<and> s \<noteq> [])
     \<and> (get raw ''result'' = Undefined \<or> isObject (get raw ''result''))
     \<and> (get raw ''error'' = Undefined \<or> pissues (ProtocolErrorSchema (get raw ''error'')) = [])"
  by (simp add: ResponseEnvelopeSchema_def z_object_accepts ProtocolVersion_accepts
        Identifier_accepts record_string_unknown_accepts z_optional_accepts)

lemma EventEnvelopeSchema_accepts:
  "pissues (EventEnvelopeSchema raw) = [] \<longleftrightarrow>
     isObject raw
     \<and> get raw ''version'' = String ''1.0''
     \<and> (\<exists>s. get raw ''event'' = String s \<and> trim s \<noteq> [])
     \<and> (\<exists>r. get raw ''ts'' = Number (Finite r) \<and> isInteger r \<and> r \<le> MAX_SAFE_INTEGER \<and> 0 < r)"
  by (simp add: EventEnvelopeSchema_def z_object_accepts ProtocolVersion_accepts
        NonEmptyString_accepts Timestamp_accepts z_unknown_def ok_simps)

lemma ProtocolErrorSchema_accepts:
  "pissues (ProtocolErrorSchema raw) = [] \<longleftrightarrow>
     isObject raw
     \<and> (\<exists>r. get raw ''code'' = Number (Finite r) \<and> isInteger r \<and> \<bar>r\<bar> \<le> MAX_SAFE_INTEGER)
     \<and> (\<exists>s. get raw ''message'' = String s)
     \<and> (\<exists>b. get raw ''retryable'' = Boolean b)"
  by (simp add: ProtocolErrorSchema_def z_object_accepts z_int_number_accepts z_string_accepts
        z_boolean_accepts)

lemma ConnectSchema_accepts:
  "pissues (ConnectSchema raw) = [] \<longleftrightarrow>
     isObject raw
     \<and> (\<exists>r. get raw ''role'' = String r \<and> r \<in> set ROLES)
     \<and> (\<exists>s. get raw ''deviceId'' = String s \<and> trim s \<noteq> [])
     \<and> (\<exists>s. get raw ''authToken'' = String s \<and> trim s \<noteq> [])
     \<and> (\<exists>s. get raw ''nonce'' = String s \<and> trim s \<noteq> [])
     \<and> (get raw ''agentId'' = Undefined \<or> (\<exists>s. get raw ''agentId'' = String s \<and> trim s \<noteq> []))
     \<and> (get raw ''capabilities'' = Undefined
          \<or> pissues (z_array NonEmptyString (get raw ''capabilities'')) = [])"
  by (simp add: ConnectSchema_def z_object_accepts RoleSchema_def z_enum_accepts
        NonEmptyString_accepts z_optional_accepts)

lemma parseRequestEnvelope_Failure:
  "safeParse RequestEnvelopeSchema raw = Failure zs \<Longrightarrow>
     parseRequestEnvelope L raw
       = Inl (ProtocolValidationError ''Invalid request envelope'' (toProtocolIssues L zs))"
  by (simp add: parseRequestEnvelope_def)

lemma parseRequestEnvelope_Success:
  assumes "safeParse RequestEnvelopeSchema raw = Success envelope"
  shows "parseRequestEnvelope L raw
         = (if requiresIdempotencyKey (str (get raw ''method''))
               \<and> get raw ''idempotencyKey'' = Undefined
            then Inl (new_IdempotencyKeyError (str (get raw ''method'')))
            else Inr envelope)"
proof -
  from assms have acc: "pissues (RequestEnvelopeSchema raw) = []"
    and env: "envelope = pvalue (RequestEnvelopeSchema raw)"
    by (simp_all add: safeParse_Success_iff)
  from acc have obj: "isObject raw"
    and key: "get raw ''idempotencyKey'' = Undefined
              \<or> (\<exists>s. get raw ''idempotencyKey'' = String s \<and> trim s \<noteq> [])"
    by (simp_all add: RequestEnvelopeSchema_accepts)
  have m: "get envelope ''method'' = get raw ''method''"
    by (simp add: env RequestEnvelopeSchema_method [OF obj])
  have "falsy (get envelope ''idempotencyKey'') \<longleftrightarrow> get raw ''idempotencyKey'' = Undefined"
  proof (cases "get raw ''idempotencyKey'' = Undefined")
    case True
    then show ?thesis
      by (simp add: env RequestEnvelopeSchema_idempotencyKey [OF obj])
  next
    case False
    with key obtain s where s: "get raw ''idempotencyKey'' = String s" "trim s \<noteq> []"
      by blast
    then have "pissues (NonEmptyString (String s)) = []"
      by (simp add: NonEmptyString_accepts)
    then have "pvalue (NonEmptyString (String s)) = String (trim s)"
      by (simp add: NonEmptyString_value)
    with s show ?thesis
      by (simp add: env RequestEnvelopeSchema_idempotencyKey [OF obj])
  qed
  with assms m show ?thesis
    by (simp add: parseRequestEnvelope_def)
qed

lemma safeParse_cases:
  "(\<exists>e. safeParse s raw = Success e) \<or> (\<exists>zs. safeParse s raw = Failure zs \<and> zs \<noteq> [])"
  by (simp add: safeParse_def Let_def)

lemma toProtocolIssues_empty: "(toProtocolIssues L zs = []) = (zs = [])"
  by (simp add: toProtocolIssues_def)

lemma ResponseEnvelopeSchema_version:
  "isObject raw \<Longrightarrow> get (pvalue (ResponseEnvelopeSchema raw)) ''version'' = get raw ''version''"
  by (simp add: ResponseEnvelopeSchema_def get_z_object ProtocolVersion_value)

lemma EventEnvelopeSchema_version:
  "isObject raw \<Longrightarrow> get (pvalue (EventEnvelopeSchema raw)) ''version'' = get raw ''version''"
  by (simp add: EventEnvelopeSchema_def get_z_object ProtocolVersion_value)

lemma RequestEnvelopeSchema_paths:
  assumes "isObject raw"
  shows "zpath ` set (pissues (RequestEnvelopeSchema raw))
         = (\<lambda>key. [Key key]) `
             {key. \<exists>el. (key, el) \<in> set [(''version'', ProtocolVersion),
                                         (''id'', Identifier),
                                         (''method'', z_enum RPC_METHODS),
                                         (''params'', z_record z_string z_unknown),
                                         (''idempotencyKey'', z_optional NonEmptyString),
                                         (''ts'', Timestamp)]
                        \<and> pissues (el (get raw key)) \<noteq> []}"
  unfolding RequestEnvelopeSchema_def
  by (rule flat_z_object_paths [OF assms])
     (simp add: flat_ProtocolVersion flat_Identifier flat_z_enum flat_record_string_unknown
        flat_z_optional flat_NonEmptyString flat_Timestamp)

lemma toProtocolPath_Keys: "toProtocolPath [] = []" "toProtocolPath [Key k] = [Key k]"
  by (simp_all add: toProtocolPath_def)

lemma parseRequestEnvelope_throws_instance:
  "parseRequestEnvelope L raw = Inl e \<Longrightarrow> instanceof_ProtocolValidationError e"
  by (auto simp: parseRequestEnvelope_def new_IdempotencyKeyError_def
           split: safe_parse_result.splits if_splits)

lemma parseRequestEnvelope_unknown_Plain:
  "parseRequestEnvelope_unknown L (Plain raw) = parseRequestEnvelope L raw"
  by (simp add: parseRequestEnvelope_unknown_def read_through_def)

lemma RequestEnvelopeSchema_keys:
  "RequestEnvelopeSchema
   = z_object (zip RequestEnvelopeKeys
       [ProtocolVersion, Identifier, z_enum RPC_METHODS, z_record z_string z_unknown,
        z_optional NonEmptyString, Timestamp])"
  by (simp add: RequestEnvelopeSchema_def RequestEnvelopeKeys_def)

lemma safeParseRequestEnvelope_rethrown:
  assumes "safeParseRequestEnvelope L input = Inl e"
  shows "\<not> instanceof_ProtocolValidationError e
         \<and> (\<exists>props. input = Accessors props \<and> first_throw props RequestEnvelopeKeys = Some e)"
proof (cases input)
  case (Plain raw)
  with assms parseRequestEnvelope_throws_instance [of L raw] show ?thesis
    by (cases "parseRequestEnvelope L raw")
       (simp_all add: safeParseRequestEnvelope_def parseRequestEnvelope_unknown_Plain
             split: if_splits)
next
  case (Accessors props)
  show ?thesis
  proof (cases "first_throw props RequestEnvelopeKeys")
    case None
    with assms Accessors parseRequestEnvelope_throws_instance [of L "data_properties props"]
    show ?thesis
      by (cases "parseRequestEnvelope L (data_properties props)")
         (simp_all add: safeParseRequestEnvelope_def parseRequestEnvelope_unknown_def
               read_through_def split: if_splits)
  next
    case (Some e')
    with assms Accessors show ?thesis
      by (simp add: safeParseRequestEnvelope_def parseRequestEnvelope_unknown_def
            read_through_def split: if_splits)
  qed
qed

text \<open>The definitions a concrete input is evaluated with.\<close>

lemmas schema_defs = RequestEnvelopeSchema_def ResponseEnvelopeSchema_def EventEnvelopeSchema_def
  ConnectSchema_def ProtocolErrorSchema_def
  NonEmptyString_def Identifier_def Timestamp_def ProtocolVersion_def RoleSchema_def
  PROTOCOL_VERSION_def ROLES_def RPC_METHODS_def IDEMPOTENT_METHODS_def
  z_object_def z_record_def z_array_def z_optional_def z_enum_def z_literal_def z_unknown_def
  z_min_def z_trim_def z_int_def z_positive_def check_def ok_def fail_def object_entry_def
  record_entry_def prefixIssues_def safeParse_def trim_def isWhiteSpace_def isInteger_def
  MAX_SAFE_INTEGER_def

section \<open>Idempotency keys on requests\<close>

text \<open>
  Claim C1. The idempotency-required methods are message.send, agent.run,
  node.exec.request and node.exec.approve. A request naming one of them and carrying no
  idempotencyKey is always rejected by \<open>parseRequestEnvelope\<close>; when the envelope is
  otherwise well formed the rejection is an IdempotencyKeyError, whose name differs from
  that of the ProtocolValidationError raised for structural failures. A well-formed
  envelope for any other method is accepted without an idempotencyKey.
\<close>

theorem parseRequestEnvelope_requires_idempotencyKey:
  assumes "get raw ''method'' = String m" and "get raw ''idempotencyKey'' = Undefined"
  shows "set IDEMPOTENT_METHODS
           = {''message.send'', ''agent.run'', ''node.exec.request'', ''node.exec.approve''}
    \<and> (m \<in> set IDEMPOTENT_METHODS \<longrightarrow> (\<exists>e. parseRequestEnvelope L raw = Inl e))
    \<and> (m \<in> set IDEMPOTENT_METHODS \<and> safeParse RequestEnvelopeSchema raw = Success envelope \<longrightarrow>
          parseRequestEnvelope L raw = Inl (new_IdempotencyKeyError m)
          \<and> name (new_IdempotencyKeyError m) = ''IdempotencyKeyError''
          \<and> name (new_IdempotencyKeyError m) \<noteq> name (ProtocolValidationError msg iss))
    \<and> (m \<notin> set IDEMPOTENT_METHODS \<and> safeParse RequestEnvelopeSchema raw = Success envelope \<longrightarrow>
          parseRequestEnvelope L raw = Inr envelope)"
proof -
  have a: "set IDEMPOTENT_METHODS
           = {''message.send'', ''agent.run'', ''node.exec.request'', ''node.exec.approve''}"
    by (simp add: IDEMPOTENT_METHODS_def)
  have b: "\<exists>e. parseRequestEnvelope L raw = Inl e" if "m \<in> set IDEMPOTENT_METHODS"
    using safeParse_cases [of RequestEnvelopeSchema raw]
  proof
    assume "\<exists>e. safeParse RequestEnvelopeSchema raw = Success e"
    then obtain e where "safeParse RequestEnvelopeSchema raw = Success e" ..
    from parseRequestEnvelope_Success [OF this, of L] assms that show ?thesis
      by (simp add: requiresIdempotencyKey_def)
  next
    assume "\<exists>zs. safeParse RequestEnvelopeSchema raw = Failure zs \<and> zs \<noteq> []"
    then obtain zs where "safeParse RequestEnvelopeSchema raw = Failure zs" by blast
    from parseRequestEnvelope_Failure [OF this, of L] show ?thesis by simp
  qed
  have c: "parseRequestEnvelope L raw = Inl (new_IdempotencyKeyError m)"
    if "m \<in> set IDEMPOTENT_METHODS" "safeParse RequestEnvelopeSchema raw = Success envelope"
    using parseRequestEnvelope_Success [OF that(2), of L] assms that(1)
    by (simp add: requiresIdempotencyKey_def)
  have d: "name (new_IdempotencyKeyError m) = ''IdempotencyKeyError''"
    "name (new_IdempotencyKeyError m) \<noteq> name (ProtocolValidationError msg iss)"
    by (simp_all add: new_IdempotencyKeyError_def)
  have e: "parseRequestEnvelope L raw = Inr envelope"
    if "m \<notin> set IDEMPOTENT_METHODS" "safeParse RequestEnvelopeSchema raw = Success envelope"
    using parseRequestEnvelope_Success [OF that(2), of L] assms that(1)
    by (simp add: requiresIdempotencyKey_def)
  from a b c d e show ?thesis by blast
qed

text \<open>
  The repository's own cases: message.send without a key, and status.get without a key.
\<close>

theorem parseRequestEnvelope_requires_idempotencyKey_witness:
  "parseRequestEnvelope (\<lambda>z. ''invalid'')
     (Object [(''version'', String ''1.0''), (''id'', String ''req-1''),
              (''method'', String ''message.send''),
              (''params'', Object [(''sessionId'', String ''s1''), (''content'', String ''hello'')]),
              (''ts'', Number (Finite 1700000000000))])
   = Inl (new_IdempotencyKeyError ''message.send'')
   \<and> parseRequestEnvelope (\<lambda>z. ''invalid'')
       (Object [(''version'', String ''1.0''), (''id'', String ''req-1''),
                (''method'', String ''status.get''), (''params'', Object []),
                (''ts'', Number (Finite 1700000000000))])
     = Inr (Object [(''version'', String ''1.0''), (''id'', String ''req-1''),
                (''method'', String ''status.get''), (''params'', Object []),
                (''ts'', Number (Finite 1700000000000))])"
proof -
  let ?send = "Object [(''version'', String ''1.0''), (''id'', String ''req-1''),
              (''method'', String ''message.send''),
              (''params'', Object [(''sessionId'', String ''s1''), (''content'', String ''hello'')]),
              (''ts'', Number (Finite 1700000000000))]"
  let ?status = "Object [(''version'', String ''1.0''), (''id'', String ''req-1''),
                (''method'', String ''status.get''), (''params'', Object []),
                (''ts'', Number (Finite 1700000000000))]"
  have m1: "get ?send ''method'' = String ''message.send''"
    and k1: "get ?send ''idempotencyKey'' = Undefined"
    and m2: "get ?status ''method'' = String ''status.get''"
    and k2: "get ?status ''idempotencyKey'' = Undefined"
    by simp_all
  have s1: "safeParse RequestEnvelopeSchema ?send = Success ?send"
    and s2: "safeParse RequestEnvelopeSchema ?status = Success ?status"
    by (simp_all add: schema_defs)
  have in1: "''message.send'' \<in> set IDEMPOTENT_METHODS"
    and out2: "''status.get'' \<notin> set IDEMPOTENT_METHODS"
    by (simp_all add: IDEMPOTENT_METHODS_def)
  from parseRequestEnvelope_requires_idempotencyKey [OF m1 k1, of "\<lambda>z. ''invalid''" ?send] s1 in1
  have a: "parseRequestEnvelope (\<lambda>z. ''invalid'') ?send
           = Inl (new_IdempotencyKeyError ''message.send'')"
    by simp
  from parseRequestEnvelope_requires_idempotencyKey [OF m2 k2, of "\<lambda>z. ''invalid''" ?status]
       s2 out2
  have b: "parseRequestEnvelope (\<lambda>z. ''invalid'') ?status = Inr ?status"
    by simp
  from a b show ?thesis by (rule conjI)
qed

section \<open>The response envelope\<close>

text \<open>
  Claim C2, as stated, fails: the response validator accepts a response carrying both a
  result and an error, and a response carrying neither.
\<close>

theorem response_result_error_counterexample:
  "safeParse ResponseEnvelopeSchema
     (Object [(''version'', String ''1.0''), (''id'', String ''req-1''),
              (''result'', Object [(''ok'', Boolean True)]),
              (''error'', Object [(''code'', Number (Finite 4001)),
                                 (''message'', String ''Invalid token''),
                                 (''retryable'', Boolean False)])])
   = Success
     (Object [(''version'', String ''1.0''), (''id'', String ''req-1''),
              (''result'', Object [(''ok'', Boolean True)]),
              (''error'', Object [(''code'', Number (Finite 4001)),
                                 (''message'', String ''Invalid token''),
                                 (''retryable'', Boolean False)])])
   \<and> safeParse ResponseEnvelopeSchema
        (Object [(''version'', String ''1.0''), (''id'', String ''req-1'')])
     = Success (Object [(''version'', String ''1.0''), (''id'', String ''req-1'')])"
  by (simp add: schema_defs)

text \<open>
  Claim C2, amended. The response validator accepts exactly the objects whose version is
  "1.0", whose id is a non-empty string, whose result, when present, is an object, and
  whose error, when present, is a valid protocol error payload. The two fields are
  optional independently of each other.
\<close>

theorem response_result_error_optional:
  "(\<exists>e. safeParse ResponseEnvelopeSchema raw = Success e) \<longleftrightarrow>
     isObject raw
     \<and> get raw ''version'' = String ''1.0''
     \<and> (\<exists>s. get raw ''id'' = String s \<and> s \<noteq> [])
     \<and> (get raw ''result'' = Undefined \<or> isObject (get raw ''result''))
     \<and> (get raw ''error'' = Undefined
          \<or> (\<exists>e. safeParse ProtocolErrorSchema (get raw ''error'') = Success e))"
  by (simp add: safeParse_Success_iff ResponseEnvelopeSchema_accepts)

theorem response_result_error_optional_witness:
  "(\<exists>e. safeParse ResponseEnvelopeSchema
           (Object [(''version'', String ''1.0''), (''id'', String ''req-1''),
                    (''result'', Object [(''ok'', Boolean True)]),
                    (''error'', Object [(''code'', Number (Finite 4001)),
                                       (''message'', String ''Invalid token''),
                                       (''retryable'', Boolean False)])]) = Success e)
   \<and> (\<exists>e. safeParse ResponseEnvelopeSchema
           (Object [(''version'', String ''1.0''), (''id'', String ''req-1'')]) = Success e)
   \<and> \<not> (\<exists>e. safeParse ResponseEnvelopeSchema
           (Object [(''version'', String ''1.0''), (''id'', String ''req-1''),
                    (''result'', String ''ok'')]) = Success e)"
  using response_result_error_optional
          [of "Object [(''version'', String ''1.0''), (''id'', String ''req-1''),
                    (''result'', Object [(''ok'', Boolean True)]),
                    (''error'', Object [(''code'', Number (Finite 4001)),
                                       (''message'', String ''Invalid token''),
                                       (''retryable'', Boolean False)])]"]
        response_result_error_optional
          [of "Object [(''version'', String ''1.0''), (''id'', String ''req-1'')]"]
        response_result_error_optional
          [of "Object [(''version'', String ''1.0''), (''id'', String ''req-1''),
                    (''result'', String ''ok'')]"]
  by (simp add: schema_defs)

section \<open>The handshake connect message\<close>

text \<open>
  Claim C3, as stated, fails: the connect validator accepts a payload that has no
  timestamp.
\<close>

theorem connect_timestamp_counterexample:
  "safeParse ConnectSchema
     (Object [(''role'', String ''client''), (''deviceId'', String ''device-123''),
              (''authToken'', String ''token-abc''), (''nonce'', String ''nonce-xyz'')])
   = Success
     (Object [(''role'', String ''client''), (''deviceId'', String ''device-123''),
              (''authToken'', String ''token-abc''), (''nonce'', String ''nonce-xyz'')])
   \<and> get (Object [(''role'', String ''client''), (''deviceId'', String ''device-123''),
              (''authToken'', String ''token-abc''), (''nonce'', String ''nonce-xyz'')])
         ''timestamp'' = Undefined
   \<and> \<not> has (Object [(''role'', String ''client''), (''deviceId'', String ''device-123''),
              (''authToken'', String ''token-abc''), (''nonce'', String ''nonce-xyz'')])
         ''timestamp''"
  by (simp add: schema_defs)

text \<open>
  Claim C3, amended. The connect validator accepts exactly the objects with a role among
  client, node and admin, with deviceId, authToken and nonce strings that are non-empty
  after trimming, and with well-formed optional agentId and capabilities. A timestamp is
  neither required nor kept: the parsed message never has one.
\<close>

theorem connect_required_fields:
  "((\<exists>e. safeParse ConnectSchema raw = Success e) \<longleftrightarrow>
      isObject raw
      \<and> (\<exists>r. get raw ''role'' = String r \<and> r \<in> {''client'', ''node'', ''admin''})
      \<and> (\<exists>s. get raw ''deviceId'' = String s \<and> trim s \<noteq> [])
      \<and> (\<exists>s. get raw ''authToken'' = String s \<and> trim s \<noteq> [])
      \<and> (\<exists>s. get raw ''nonce'' = String s \<and> trim s \<noteq> [])
      \<and> (get raw ''agentId'' = Undefined
           \<or> (\<exists>s. get raw ''agentId'' = String s \<and> trim s \<noteq> []))
      \<and> (get raw ''capabilities'' = Undefined
           \<or> (\<exists>items. get raw ''capabilities'' = Array items
                 \<and> (\<forall>x \<in> set items. \<exists>s. x = String s \<and> trim s \<noteq> []))))
   \<and> (safeParse ConnectSchema raw = Success e \<longrightarrow> get e ''timestamp'' = Undefined)"
proof -
  have "get (pvalue (ConnectSchema raw)) ''timestamp'' = Undefined" if "isObject raw"
    using that by (simp add: ConnectSchema_def get_z_object)
  then show ?thesis
    by (auto simp: safeParse_Success_iff ConnectSchema_accepts z_array_accepts
          NonEmptyString_accepts ROLES_def)
qed

theorem connect_required_fields_witness:
  "(\<exists>e. safeParse ConnectSchema
      (Object [(''role'', String ''node''), (''deviceId'', String ''device-123''),
               (''authToken'', String ''token-abc''), (''nonce'', String ''nonce-xyz''),
               (''timestamp'', Number (Finite 1700000000000)),
               (''capabilities'', Array [String ''exec'', String ''stream''])]) = Success e)
   \<and> get (Object [(''role'', String ''node''), (''deviceId'', String ''device-123''),
               (''authToken'', String ''token-abc''), (''nonce'', String ''nonce-xyz''),
               (''capabilities'', Array [String ''exec'', String ''stream''])])
        ''timestamp'' = Undefined
   \<and> safeParse ConnectSchema
      (Object [(''role'', String ''node''), (''deviceId'', String ''device-123''),
               (''authToken'', String ''token-abc''), (''nonce'', String ''nonce-xyz''),
               (''timestamp'', Number (Finite 1700000000000)),
               (''capabilities'', Array [String ''exec'', String ''stream''])])
     = Success
      (Object [(''role'', String ''node''), (''deviceId'', String ''device-123''),
               (''authToken'', String ''token-abc''), (''nonce'', String ''nonce-xyz''),
               (''capabilities'', Array [String ''exec'', String ''stream''])])"
proof -
  let ?raw = "Object [(''role'', String ''node''), (''deviceId'', String ''device-123''),
               (''authToken'', String ''token-abc''), (''nonce'', String ''nonce-xyz''),
               (''timestamp'', Number (Finite 1700000000000)),
               (''capabilities'', Array [String ''exec'', String ''stream''])]"
  let ?e = "Object [(''role'', String ''node''), (''deviceId'', String ''device-123''),
               (''authToken'', String ''token-abc''), (''nonce'', String ''nonce-xyz''),
               (''capabilities'', Array [String ''exec'', String ''stream''])]"
  have s: "safeParse ConnectSchema ?raw = Success ?e"
    by (simp add: schema_defs)
  from connect_required_fields [of ?raw ?e] s
  have "(\<exists>e. safeParse ConnectSchema ?raw = Success e) \<and> get ?e ''timestamp'' = Undefined"
    by blast
  with s show ?thesis by blast
qed

section \<open>Methods and versions of envelopes\<close>

text \<open>
  Claim C4. \<open>parseRequestEnvelope\<close> returns an envelope only if the method of the
  input is one of the nine v1 methods, and the envelope carries that method. Any other
  method value makes it throw a ProtocolValidationError with a non-empty issue list.
\<close>

theorem parseRequestEnvelope_method_enumerated:
  "(parseRequestEnvelope L raw = Inr envelope \<longrightarrow>
      (\<exists>m. get raw ''method'' = String m \<and> get envelope ''method'' = String m
         \<and> m \<in> {''session.resolve'', ''message.send'', ''agent.run'', ''agent.cancel'',
                 ''status.get'', ''node.exec.request'', ''node.exec.approve'',
                 ''device.revoke'', ''plugin.disable''}))
   \<and> (get raw ''method'' \<notin> String ` {''session.resolve'', ''message.send'', ''agent.run'',
          ''agent.cancel'', ''status.get'', ''node.exec.request'', ''node.exec.approve'',
          ''device.revoke'', ''plugin.disable''} \<longrightarrow>
        (\<exists>iss. parseRequestEnvelope L raw
                 = Inl (ProtocolValidationError ''Invalid request envelope'' iss)
               \<and> iss \<noteq> []))"
proof -
  have nine: "set RPC_METHODS = {''session.resolve'', ''message.send'', ''agent.run'',
       ''agent.cancel'', ''status.get'', ''node.exec.request'', ''node.exec.approve'',
       ''device.revoke'', ''plugin.disable''}"
    by (simp add: RPC_METHODS_def)
  have a: "\<exists>m. get raw ''method'' = String m \<and> get envelope ''method'' = String m
              \<and> m \<in> set RPC_METHODS"
    if ok: "parseRequestEnvelope L raw = Inr envelope"
  proof -
    from ok have s: "safeParse RequestEnvelopeSchema raw = Success envelope"
      by (auto simp: parseRequestEnvelope_def split: safe_parse_result.splits if_splits)
    then have acc: "pissues (RequestEnvelopeSchema raw) = []"
      and env: "envelope = pvalue (RequestEnvelopeSchema raw)"
      by (simp_all add: safeParse_Success_iff)
    from acc have obj: "isObject raw"
      and "\<exists>m. get raw ''method'' = String m \<and> m \<in> set RPC_METHODS"
      by (simp_all add: RequestEnvelopeSchema_accepts)
    then show ?thesis
      by (auto simp: env RequestEnvelopeSchema_method [OF obj])
  qed
  have b: "\<exists>iss. parseRequestEnvelope L raw
                 = Inl (ProtocolValidationError ''Invalid request envelope'' iss) \<and> iss \<noteq> []"
    if bad: "get raw ''method'' \<notin> String ` set RPC_METHODS"
  proof -
    from bad have "pissues (RequestEnvelopeSchema raw) \<noteq> []"
      by (auto simp: RequestEnvelopeSchema_accepts)
    then have "safeParse RequestEnvelopeSchema raw = Failure (pissues (RequestEnvelopeSchema raw))"
      by (simp add: safeParse_def)
    from parseRequestEnvelope_Failure [OF this, of L] \<open>pissues (RequestEnvelopeSchema raw) \<noteq> []\<close>
    show ?thesis by (simp add: toProtocolIssues_empty)
  qed
  from a b show ?thesis unfolding nine by blast
qed

theorem parseRequestEnvelope_method_enumerated_witness:
  "parseRequestEnvelope (\<lambda>z. ''invalid'')
       (Object [(''version'', String ''1.0''), (''id'', String ''req-1''),
                (''method'', String ''status.get''), (''params'', Object []),
                (''ts'', Number (Finite 1700000000000))])
     = Inr (Object [(''version'', String ''1.0''), (''id'', String ''req-1''),
                (''method'', String ''status.get''), (''params'', Object []),
                (''ts'', Number (Finite 1700000000000))])
   \<and> get (Object [(''version'', String ''1.0''), (''id'', String ''req-1''),
                (''method'', String ''status.get''), (''params'', Object []),
                (''ts'', Number (Finite 1700000000000))]) ''method'' = String ''status.get''
   \<and> (\<exists>iss. parseRequestEnvelope (\<lambda>z. ''invalid'')
       (Object [(''version'', String ''1.0''), (''id'', String ''req-1''),
                (''method'', String ''not.a.method''), (''params'', Object []),
                (''ts'', Number (Finite 1700000000000))])
     = Inl (ProtocolValidationError ''Invalid request envelope'' iss) \<and> iss \<noteq> [])"
proof -
  let ?good = "Object [(''version'', String ''1.0''), (''id'', String ''req-1''),
                (''method'', String ''status.get''), (''params'', Object []),
                (''ts'', Number (Finite 1700000000000))]"
  let ?bad = "Object [(''version'', String ''1.0''), (''id'', String ''req-1''),
                (''method'', String ''not.a.method''), (''params'', Object []),
                (''ts'', Number (Finite 1700000000000))]"
  have g: "parseRequestEnvelope (\<lambda>z. ''invalid'') ?good = Inr ?good"
    by (simp add: parseRequestEnvelope_def requiresIdempotencyKey_def schema_defs)
  have b: "get ?bad ''method'' \<notin> String ` {''session.resolve'', ''message.send'', ''agent.run'',
          ''agent.cancel'', ''status.get'', ''node.exec.request'', ''node.exec.approve'',
          ''device.revoke'', ''plugin.disable''}"
    by (simp add: image_iff)
  from parseRequestEnvelope_method_enumerated [of "\<lambda>z. ''invalid''" ?good ?good] g
  have "get ?good ''method'' = String ''status.get''" by simp
  moreover from parseRequestEnvelope_method_enumerated [of "\<lambda>z. ''invalid''" ?bad ?bad] b
  have "\<exists>iss. parseRequestEnvelope (\<lambda>z. ''invalid'') ?bad
     = Inl (ProtocolValidationError ''Invalid request envelope'' iss) \<and> iss \<noteq> []"
    by blast
  ultimately show ?thesis using g by blast
qed

text \<open>
  Claim C5. Each of the request, response and event validators succeeds only on an input
  whose version is the literal "1.0", and returns that version; an input with any other
  version is rejected by all three.
\<close>

theorem envelope_version_literal:
  "PROTOCOL_VERSION = ''1.0''
   \<and> (safeParse RequestEnvelopeSchema req = Success e1 \<longrightarrow>
        get req ''version'' = String ''1.0'' \<and> get e1 ''version'' = String ''1.0'')
   \<and> (safeParse ResponseEnvelopeSchema res = Success e2 \<longrightarrow>
        get res ''version'' = String ''1.0'' \<and> get e2 ''version'' = String ''1.0'')
   \<and> (safeParse EventEnvelopeSchema ev = Success e3 \<longrightarrow>
        get ev ''version'' = String ''1.0'' \<and> get e3 ''version'' = String ''1.0'')
   \<and> (get raw ''version'' \<noteq> String ''1.0'' \<longrightarrow>
        safeParse RequestEnvelopeSchema raw = Failure (pissues (RequestEnvelopeSchema raw))
        \<and> safeParse ResponseEnvelopeSchema raw = Failure (pissues (ResponseEnvelopeSchema raw))
        \<and> safeParse EventEnvelopeSchema raw = Failure (pissues (EventEnvelopeSchema raw)))"
proof -
  have a: "get req ''version'' = String ''1.0'' \<and> get e1 ''version'' = String ''1.0''"
    if "safeParse RequestEnvelopeSchema req = Success e1"
    using that
    by (auto simp: safeParse_Success_iff RequestEnvelopeSchema_accepts RequestEnvelopeSchema_version)
  have b: "get res ''version'' = String ''1.0'' \<and> get e2 ''version'' = String ''1.0''"
    if "safeParse ResponseEnvelopeSchema res = Success e2"
    using that
    by (auto simp: safeParse_Success_iff ResponseEnvelopeSchema_accepts ResponseEnvelopeSchema_version)
  have c: "get ev ''version'' = String ''1.0'' \<and> get e3 ''version'' = String ''1.0''"
    if "safeParse EventEnvelopeSchema ev = Success e3"
    using that
    by (auto simp: safeParse_Success_iff EventEnvelopeSchema_accepts EventEnvelopeSchema_version)
  have d: "safeParse RequestEnvelopeSchema raw = Failure (pissues (RequestEnvelopeSchema raw))
        \<and> safeParse ResponseEnvelopeSchema raw = Failure (pissues (ResponseEnvelopeSchema raw))
        \<and> safeParse EventEnvelopeSchema raw = Failure (pissues (EventEnvelopeSchema raw))"
    if "get raw ''version'' \<noteq> String ''1.0''"
    using that
    by (simp add: safeParse_Failure_iff RequestEnvelopeSchema_accepts
          ResponseEnvelopeSchema_accepts EventEnvelopeSchema_accepts)
  from a b c d show ?thesis by (simp add: PROTOCOL_VERSION_def)
qed

theorem envelope_version_literal_witness:
  "safeParse RequestEnvelopeSchema
     (Object [(''version'', String ''1.0''), (''id'', String ''req-1''),
              (''method'', String ''status.get''), (''params'', Object []),
              (''ts'', Number (Finite 1700000000000))])
   = Success
     (Object [(''version'', String ''1.0''), (''id'', String ''req-1''),
              (''method'', String ''status.get''), (''params'', Object []),
              (''ts'', Number (Finite 1700000000000))])
   \<and> safeParse ResponseEnvelopeSchema
       (Object [(''version'', String ''1.0''), (''id'', String ''req-1''),
                (''result'', Object [(''status'', String ''ok'')])])
     = Success
       (Object [(''version'', String ''1.0''), (''id'', String ''req-1''),
                (''result'', Object [(''status'', String ''ok'')])])
   \<and> safeParse EventEnvelopeSchema
       (Object [(''version'', String ''1.0''), (''event'', String ''agent.completed''),
                (''data'', Object [(''runId'', String ''run-1'')]),
                (''ts'', Number (Finite 1700000000000))])
     = Success
       (Object [(''version'', String ''1.0''), (''event'', String ''agent.completed''),
                (''data'', Object [(''runId'', String ''run-1'')]),
                (''ts'', Number (Finite 1700000000000))])
   \<and> safeParse RequestEnvelopeSchema
       (Object [(''version'', String ''2.0''), (''id'', String ''req-1''),
                (''method'', String ''session.resolve''),
                (''params'', Object [(''deviceId'', String ''device-1'')]),
                (''event'', String ''agent.completed''),
                (''ts'', Number (Finite 1700000000000))])
     = Failure [\<lparr>zcode = invalid_value [''1.0''], zinput = String ''2.0'',
                  zpath = [Key ''version'']\<rparr>]
   \<and> safeParse ResponseEnvelopeSchema
       (Object [(''version'', String ''2.0''), (''id'', String ''req-1''),
                (''method'', String ''session.resolve''),
                (''params'', Object [(''deviceId'', String ''device-1'')]),
                (''event'', String ''agent.completed''),
                (''ts'', Number (Finite 1700000000000))])
     = Failure [\<lparr>zcode = invalid_value [''1.0''], zinput = String ''2.0'',
                  zpath = [Key ''version'']\<rparr>]
   \<and> safeParse EventEnvelopeSchema
       (Object [(''version'', String ''2.0''), (''id'', String ''req-1''),
                (''method'', String ''session.resolve''),
                (''params'', Object [(''deviceId'', String ''device-1'')]),
                (''event'', String ''agent.completed''),
                (''ts'', Number (Finite 1700000000000))])
     = Failure [\<lparr>zcode = invalid_value [''1.0''], zinput = String ''2.0'',
                  zpath = [Key ''version'']\<rparr>]"
proof -
  let ?req = "Object [(''version'', String ''1.0''), (''id'', String ''req-1''),
              (''method'', String ''status.get''), (''params'', Object []),
              (''ts'', Number (Finite 1700000000000))]"
  let ?res = "Object [(''version'', String ''1.0''), (''id'', String ''req-1''),
                (''result'', Object [(''status'', String ''ok'')])]"
  let ?ev = "Object [(''version'', String ''1.0''), (''event'', String ''agent.completed''),
                (''data'', Object [(''runId'', String ''run-1'')]),
                (''ts'', Number (Finite 1700000000000))]"
  let ?old = "Object [(''version'', String ''2.0''), (''id'', String ''req-1''),
                (''method'', String ''session.resolve''),
                (''params'', Object [(''deviceId'', String ''device-1'')]),
                (''event'', String ''agent.completed''),
                (''ts'', Number (Finite 1700000000000))]"
  have ok: "safeParse RequestEnvelopeSchema ?req = Success ?req"
    "safeParse ResponseEnvelopeSchema ?res = Success ?res"
    "safeParse EventEnvelopeSchema ?ev = Success ?ev"
    by (simp_all add: schema_defs)
  have v: "get ?old ''version'' \<noteq> String ''1.0''" by simp
  have iss: "pissues (RequestEnvelopeSchema ?old)
      = [\<lparr>zcode = invalid_value [''1.0''], zinput = String ''2.0'', zpath = [Key ''version'']\<rparr>]"
    "pissues (ResponseEnvelopeSchema ?old)
      = [\<lparr>zcode = invalid_value [''1.0''], zinput = String ''2.0'', zpath = [Key ''version'']\<rparr>]"
    "pissues (EventEnvelopeSchema ?old)
      = [\<lparr>zcode = invalid_value [''1.0''], zinput = String ''2.0'', zpath = [Key ''version'']\<rparr>]"
    by (simp_all add: schema_defs)
  from envelope_version_literal [of ?req ?req ?res ?res ?ev ?ev ?old] v
  have "safeParse RequestEnvelopeSchema ?old = Failure (pissues (RequestEnvelopeSchema ?old))
        \<and> safeParse ResponseEnvelopeSchema ?old = Failure (pissues (ResponseEnvelopeSchema ?old))
        \<and> safeParse EventEnvelopeSchema ?old = Failure (pissues (EventEnvelopeSchema ?old))"
    by blast
  with ok iss show ?thesis by simp
qed

section \<open>The protocol error payload\<close>

text \<open>
  Claim C6, as stated, fails: the validator accepts the numeric code 4001, which is none
  of the enumerated error codes, and rejects the enumerated code AUTH_FAILED.
\<close>

theorem protocol_error_code_counterexample:
  "safeParse ProtocolErrorSchema
     (Object [(''code'', Number (Finite 4001)), (''message'', String ''Invalid token''),
              (''retryable'', Boolean False)])
   = Success
     (Object [(''code'', Number (Finite 4001)), (''message'', String ''Invalid token''),
              (''retryable'', Boolean False)])
   \<and> Number (Finite 4001) \<notin> String ` set ErrorCode
   \<and> ''AUTH_FAILED'' \<in> set ErrorCode
   \<and> safeParse ProtocolErrorSchema
        (Object [(''code'', String ''AUTH_FAILED''), (''message'', String ''Invalid token''),
                 (''retryable'', Boolean False)])
     = Failure [\<lparr>zcode = invalid_type ''number'', zinput = String ''AUTH_FAILED'',
                  zpath = [Key ''code'']\<rparr>]"
  by (simp add: schema_defs ErrorCode_def image_iff)

text \<open>
  Claim C6, amended. Every protocol error payload accepted by the validator has an integer
  number within the safe range as code, a string as message and a boolean as retryable,
  and the parsed payload consists of exactly these three fields. A payload without a
  boolean retryable flag is rejected, and so is a payload whose code is not a number.
\<close>

theorem protocol_error_payload_fields:
  "(safeParse ProtocolErrorSchema raw = Success e \<longrightarrow>
      (\<exists>r s b. get raw ''code'' = Number (Finite r) \<and> isInteger r \<and> \<bar>r\<bar> \<le> MAX_SAFE_INTEGER
         \<and> get raw ''message'' = String s
         \<and> get raw ''retryable'' = Boolean b
         \<and> e = Object [(''code'', Number (Finite r)), (''message'', String s),
                        (''retryable'', Boolean b)]))
   \<and> ((\<forall>b. get raw ''retryable'' \<noteq> Boolean b) \<longrightarrow>
        safeParse ProtocolErrorSchema raw = Failure (pissues (ProtocolErrorSchema raw)))
   \<and> ((\<forall>r. get raw ''code'' \<noteq> Number (Finite r)) \<longrightarrow>
        safeParse ProtocolErrorSchema raw = Failure (pissues (ProtocolErrorSchema raw)))"
proof -
  have a: "\<exists>r s b. get raw ''code'' = Number (Finite r) \<and> isInteger r \<and> \<bar>r\<bar> \<le> MAX_SAFE_INTEGER
         \<and> get raw ''message'' = String s
         \<and> get raw ''retryable'' = Boolean b
         \<and> e = Object [(''code'', Number (Finite r)), (''message'', String s),
                        (''retryable'', Boolean b)]"
    if "safeParse ProtocolErrorSchema raw = Success e"
  proof -
    from that have acc: "pissues (ProtocolErrorSchema raw) = []"
      and e: "e = pvalue (ProtocolErrorSchema raw)"
      by (simp_all add: safeParse_Success_iff)
    from acc obtain r s b where f: "isObject raw" "get raw ''code'' = Number (Finite r)"
      "isInteger r" "\<bar>r\<bar> \<le> MAX_SAFE_INTEGER" "get raw ''message'' = String s"
      "get raw ''retryable'' = Boolean b"
      by (auto simp: ProtocolErrorSchema_accepts)
    then have "e = Object [(''code'', Number (Finite r)), (''message'', String s),
                        (''retryable'', Boolean b)]"
      by (simp add: e ProtocolErrorSchema_def z_object_def object_entry_def
            z_int_number_value z_string_value z_boolean_value ok_simps)
    with f show ?thesis by blast
  qed
  have b: "safeParse ProtocolErrorSchema raw = Failure (pissues (ProtocolErrorSchema raw))"
    if "\<forall>b. get raw ''retryable'' \<noteq> Boolean b"
    using that by (simp add: safeParse_Failure_iff ProtocolErrorSchema_accepts)
  have c: "safeParse ProtocolErrorSchema raw = Failure (pissues (ProtocolErrorSchema raw))"
    if "\<forall>r. get raw ''code'' \<noteq> Number (Finite r)"
    using that by (simp add: safeParse_Failure_iff ProtocolErrorSchema_accepts)
  from a b c show ?thesis by blast
qed

theorem protocol_error_payload_fields_witness:
  "safeParse ProtocolErrorSchema
     (Object [(''code'', Number (Finite 4001)), (''message'', String ''Invalid token''),
              (''retryable'', Boolean False), (''stack'', String ''at handler'')])
   = Success
     (Object [(''code'', Number (Finite 4001)), (''message'', String ''Invalid token''),
              (''retryable'', Boolean False)])
   \<and> safeParse ProtocolErrorSchema
       (Object [(''code'', Number (Finite 4001)), (''message'', String ''Invalid token'')])
     = Failure [\<lparr>zcode = invalid_type ''boolean'', zinput = Undefined,
                  zpath = [Key ''retryable'']\<rparr>]"
proof -
  let ?raw = "Object [(''code'', Number (Finite 4001)), (''message'', String ''Invalid token''),
              (''retryable'', Boolean False), (''stack'', String ''at handler'')]"
  let ?e = "Object [(''code'', Number (Finite 4001)), (''message'', String ''Invalid token''),
              (''retryable'', Boolean False)]"
  let ?short = "Object [(''code'', Number (Finite 4001)), (''message'', String ''Invalid token'')]"
  have s: "safeParse ProtocolErrorSchema ?raw = Success ?e"
    by (simp add: schema_defs)
  have i: "pissues (ProtocolErrorSchema ?short)
     = [\<lparr>zcode = invalid_type ''boolean'', zinput = Undefined, zpath = [Key ''retryable'']\<rparr>]"
    by (simp add: schema_defs)
  have n: "\<forall>b. get ?short ''retryable'' \<noteq> Boolean b" by simp
  from protocol_error_payload_fields [of ?short ?e] n
  have "safeParse ProtocolErrorSchema ?short = Failure (pissues (ProtocolErrorSchema ?short))"
    by blast
  with s i show ?thesis by simp
qed

section \<open>Structural failures and the safe parser\<close>

text \<open>
  Claim C7. When the request schema rejects an input, \<open>parseRequestEnvelope\<close> throws
  a ProtocolValidationError with the message "Invalid request envelope" and one
  (path, message) issue for each issue of the schema, at least one. For an input that is
  not an object the only path is the empty one; for an object the paths are exactly the
  keys of the fields whose schema fails.
\<close>

theorem parseRequestEnvelope_structural_failure:
  assumes "safeParse RequestEnvelopeSchema raw = Failure zs"
  shows "parseRequestEnvelope L raw
           = Inl (ProtocolValidationError ''Invalid request envelope''
                    (map (\<lambda>z. \<lparr>path = toProtocolPath (zpath z), message = L z\<rparr>) zs))
       \<and> zs \<noteq> []
       \<and> (\<not> isObject raw \<longrightarrow> map (\<lambda>z. toProtocolPath (zpath z)) zs = [[]])
       \<and> (isObject raw \<longrightarrow>
            (\<lambda>z. toProtocolPath (zpath z)) ` set zs
            = (\<lambda>key. [Key key]) `
                {key. \<exists>el. (key, el) \<in> set [(''version'', ProtocolVersion),
                                            (''id'', Identifier),
                                            (''method'', z_enum RPC_METHODS),
                                            (''params'', z_record z_string z_unknown),
                                            (''idempotencyKey'', z_optional NonEmptyString),
                                            (''ts'', Timestamp)]
                           \<and> pissues (el (get raw key)) \<noteq> []})"
proof -
  from assms have zs: "zs = pissues (RequestEnvelopeSchema raw)" and ne: "zs \<noteq> []"
    by (auto simp: safeParse_Failure_iff)
  have a: "parseRequestEnvelope L raw
           = Inl (ProtocolValidationError ''Invalid request envelope''
                    (map (\<lambda>z. \<lparr>path = toProtocolPath (zpath z), message = L z\<rparr>) zs))"
    using parseRequestEnvelope_Failure [OF assms, of L] by (simp add: toProtocolIssues_def)
  have b: "map (\<lambda>z. toProtocolPath (zpath z)) zs = [[]]" if "\<not> isObject raw"
    using that by (simp add: zs RequestEnvelopeSchema_def z_object_not_object toProtocolPath_Keys)
  have c: "(\<lambda>z. toProtocolPath (zpath z)) ` set zs
            = (\<lambda>key. [Key key]) `
                {key. \<exists>el. (key, el) \<in> set [(''version'', ProtocolVersion),
                                            (''id'', Identifier),
                                            (''method'', z_enum RPC_METHODS),
                                            (''params'', z_record z_string z_unknown),
                                            (''idempotencyKey'', z_optional NonEmptyString),
                                            (''ts'', Timestamp)]
                           \<and> pissues (el (get raw key)) \<noteq> []}"
    if obj: "isObject raw"
  proof -
    have "(\<lambda>z. toProtocolPath (zpath z)) ` set zs = toProtocolPath ` zpath ` set zs"
      by (simp add: image_image)
    also have "zpath ` set zs = (\<lambda>key. [Key key]) `
                {key. \<exists>el. (key, el) \<in> set [(''version'', ProtocolVersion),
                                            (''id'', Identifier),
                                            (''method'', z_enum RPC_METHODS),
                                            (''params'', z_record z_string z_unknown),
                                            (''idempotencyKey'', z_optional NonEmptyString),
                                            (''ts'', Timestamp)]
                           \<and> pissues (el (get raw key)) \<noteq> []}"
      unfolding zs by (rule RequestEnvelopeSchema_paths [OF obj])
    finally show ?thesis
      by (simp only: image_image toProtocolPath_Keys)
  qed
  from a ne b c show ?thesis by blast
qed

theorem parseRequestEnvelope_structural_failure_witness:
  "parseRequestEnvelope (\<lambda>z. ''invalid'')
     (Object [(''version'', String ''1.0''), (''method'', String ''session.resolve''),
              (''params'', Object [(''deviceId'', String ''device-1'')]),
              (''ts'', Number (Finite 1700000000000))])
   = Inl (ProtocolValidationError ''Invalid request envelope''
            [\<lparr>path = [Key ''id''], message = ''invalid''\<rparr>])
   \<and> parseRequestEnvelope (\<lambda>z. ''invalid'') (String ''bad payload'')
     = Inl (ProtocolValidationError ''Invalid request envelope''
            [\<lparr>path = [], message = ''invalid''\<rparr>])"
proof -
  let ?noid = "Object [(''version'', String ''1.0''), (''method'', String ''session.resolve''),
              (''params'', Object [(''deviceId'', String ''device-1'')]),
              (''ts'', Number (Finite 1700000000000))]"
  have f1: "safeParse RequestEnvelopeSchema ?noid
     = Failure [\<lparr>zcode = invalid_type ''string'', zinput = Undefined, zpath = [Key ''id'']\<rparr>]"
    by (simp add: schema_defs)
  have f2: "safeParse RequestEnvelopeSchema (String ''bad payload'')
     = Failure [\<lparr>zcode = invalid_type ''object'', zinput = String ''bad payload'', zpath = []\<rparr>]"
    by (simp add: schema_defs)
  from parseRequestEnvelope_structural_failure [OF f1, of "\<lambda>z. ''invalid''"]
       parseRequestEnvelope_structural_failure [OF f2, of "\<lambda>z. ''invalid''"]
  show ?thesis by (simp add: toProtocolPath_def)
qed

text \<open>
  Claim C9, as stated, fails: \<open>safeParseRequestEnvelope\<close> is not total over all inputs.
  On an object whose \<^verbatim>\<open>version\<close> is an accessor with a getter that throws a plain
  \<^verbatim>\<open>Error\<close>, the schema's read throws, the exception is no instance of
  \<^verbatim>\<open>ProtocolValidationError\<close>, and the rethrow branch is taken.
\<close>

theorem safeParseRequestEnvelope_rethrow_counterexample:
  "safeParseRequestEnvelope same_message
     (Accessors [(''version'', Getter (Error ''boom'')), (''id'', Data (String ''req-1''))])
   = Inl (Error ''boom'')"
  by (simp add: safeParseRequestEnvelope_def parseRequestEnvelope_unknown_def read_through_def
        RequestEnvelopeKeys_def read_def)

text \<open>
  Claim C9, amended. On every plain-data input \<open>safeParseRequestEnvelope\<close> returns a
  result object and propagates no exception: the parsed envelope as a success, or what
  \<open>parseRequestEnvelope\<close> throws as a failure, since that is always an instance of
  ProtocolValidationError; in particular the IdempotencyKeyError of a missing key, a
  subclass, is returned as a failure. The rethrow branch is taken only for an exception
  that a property read of the input throws and that is no ProtocolValidationError.
\<close>

theorem safeParseRequestEnvelope_plain_total:
  "(\<exists>r. safeParseRequestEnvelope L (Plain raw) = Inr r)
   \<and> (\<forall>data. parseRequestEnvelope L raw = Inr data \<longrightarrow>
         safeParseRequestEnvelope L (Plain raw) = Inr (success_true data))
   \<and> (\<forall>e. parseRequestEnvelope L raw = Inl e \<longrightarrow>
         instanceof_ProtocolValidationError e
         \<and> safeParseRequestEnvelope L (Plain raw) = Inr (success_false e))
   \<and> instanceof_ProtocolValidationError (new_IdempotencyKeyError m)
   \<and> (safeParse RequestEnvelopeSchema raw = Success envelope
        \<and> get raw ''method'' = String m \<and> requiresIdempotencyKey m
        \<and> get raw ''idempotencyKey'' = Undefined \<longrightarrow>
        safeParseRequestEnvelope L (Plain raw)
          = Inr (success_false (new_IdempotencyKeyError m)))
   \<and> (\<forall>e. safeParseRequestEnvelope L input = Inl e \<longrightarrow>
         \<not> instanceof_ProtocolValidationError e
         \<and> (\<exists>props. input = Accessors props
               \<and> first_throw props RequestEnvelopeKeys = Some e))"
proof -
  have plain: "parseRequestEnvelope_unknown L (Plain raw) = parseRequestEnvelope L raw"
    by (rule parseRequestEnvelope_unknown_Plain)
  have inst: "instanceof_ProtocolValidationError (new_IdempotencyKeyError k)" for k
    by (simp add: new_IdempotencyKeyError_def)
  have a: "\<exists>r. safeParseRequestEnvelope L (Plain raw) = Inr r"
    using parseRequestEnvelope_throws_instance [of L raw]
    by (cases "parseRequestEnvelope L raw") (simp_all add: safeParseRequestEnvelope_def plain)
  have b: "safeParseRequestEnvelope L (Plain raw) = Inr (success_true data)"
    if "parseRequestEnvelope L raw = Inr data" for data
    using that by (simp add: safeParseRequestEnvelope_def plain)
  have c: "instanceof_ProtocolValidationError e
         \<and> safeParseRequestEnvelope L (Plain raw) = Inr (success_false e)"
    if "parseRequestEnvelope L raw = Inl e" for e
    using that parseRequestEnvelope_throws_instance [OF that]
    by (simp add: safeParseRequestEnvelope_def plain)
  have d: "safeParse RequestEnvelopeSchema raw = Success envelope
        \<and> get raw ''method'' = String m \<and> requiresIdempotencyKey m
        \<and> get raw ''idempotencyKey'' = Undefined \<longrightarrow>
        safeParseRequestEnvelope L (Plain raw)
          = Inr (success_false (new_IdempotencyKeyError m))"
  proof
    assume h: "safeParse RequestEnvelopeSchema raw = Success envelope
        \<and> get raw ''method'' = String m \<and> requiresIdempotencyKey m
        \<and> get raw ''idempotencyKey'' = Undefined"
    then have h1: "safeParse RequestEnvelopeSchema raw = Success envelope"
      and h2: "get raw ''method'' = String m" and h3: "requiresIdempotencyKey m"
      and h4: "get raw ''idempotencyKey'' = Undefined"
      by simp_all
    from parseRequestEnvelope_Success [OF h1, of L] h2 h3 h4 inst
    show "safeParseRequestEnvelope L (Plain raw)
          = Inr (success_false (new_IdempotencyKeyError m))"
      by (simp add: safeParseRequestEnvelope_def plain)
  qed
  have e: "\<forall>e. safeParseRequestEnvelope L input = Inl e \<longrightarrow>
         \<not> instanceof_ProtocolValidationError e
         \<and> (\<exists>props. input = Accessors props
               \<and> first_throw props RequestEnvelopeKeys = Some e)"
    by (intro allI impI) (rule safeParseRequestEnvelope_rethrown)
  have b': "\<forall>data. parseRequestEnvelope L raw = Inr data \<longrightarrow>
         safeParseRequestEnvelope L (Plain raw) = Inr (success_true data)"
    by (intro allI impI) (rule b)
  have c': "\<forall>e. parseRequestEnvelope L raw = Inl e \<longrightarrow>
         instanceof_ProtocolValidationError e
         \<and> safeParseRequestEnvelope L (Plain raw) = Inr (success_false e)"
    by (intro allI impI) (rule c)
  show ?thesis
    by (intro conjI) (rule a, rule b', rule c', rule inst, rule d, rule e)
qed

text \<open>The repository's own malformed payload, and the request without a key.\<close>

theorem safeParseRequestEnvelope_plain_total_witness:
  "safeParseRequestEnvelope (\<lambda>z. ''invalid'') (Plain (String ''bad payload''))
     = Inr (success_false (ProtocolValidationError ''Invalid request envelope''
              [\<lparr>path = [], message = ''invalid''\<rparr>]))
   \<and> safeParseRequestEnvelope (\<lambda>z. ''invalid'')
       (Plain (Object [(''version'', String ''1.0''), (''id'', String ''req-1''),
                (''method'', String ''message.send''),
                (''params'', Object [(''sessionId'', String ''s1''), (''content'', String ''hello'')]),
                (''ts'', Number (Finite 1700000000000))]))
     = Inr (success_false (new_IdempotencyKeyError ''message.send''))"
proof -
  let ?send = "Object [(''version'', String ''1.0''), (''id'', String ''req-1''),
                (''method'', String ''message.send''),
                (''params'', Object [(''sessionId'', String ''s1''), (''content'', String ''hello'')]),
                (''ts'', Number (Finite 1700000000000))]"
  have p: "parseRequestEnvelope (\<lambda>z. ''invalid'') (String ''bad payload'')
     = Inl (ProtocolValidationError ''Invalid request envelope''
              [\<lparr>path = [], message = ''invalid''\<rparr>])"
    by (simp add: parseRequestEnvelope_def toProtocolIssues_def toProtocolPath_def schema_defs)
  have s: "safeParse RequestEnvelopeSchema ?send = Success ?send"
    by (simp add: schema_defs)
  have r: "requiresIdempotencyKey ''message.send''"
    by (simp add: requiresIdempotencyKey_def IDEMPOTENT_METHODS_def)
  note t1 = safeParseRequestEnvelope_plain_total
         [of "\<lambda>z. ''invalid''" "String ''bad payload''" "''message.send''" ?send]
  note t2 = safeParseRequestEnvelope_plain_total
         [of "\<lambda>z. ''invalid''" ?send "''message.send''" ?send]
  from t1 [THEN conjunct2, THEN conjunct2, THEN conjunct1] have "\<forall>e. parseRequestEnvelope (\<lambda>z. ''invalid'') (String ''bad payload'') = Inl e \<longrightarrow>
         instanceof_ProtocolValidationError e
         \<and> safeParseRequestEnvelope (\<lambda>z. ''invalid'') (Plain (String ''bad payload''))
             = Inr (success_false e)"
    .
  with p have a: "safeParseRequestEnvelope (\<lambda>z. ''invalid'') (Plain (String ''bad payload''))
     = Inr (success_false (ProtocolValidationError ''Invalid request envelope''
              [\<lparr>path = [], message = ''invalid''\<rparr>]))"
    by simp
  from t2 [THEN conjunct2, THEN conjunct2, THEN conjunct2, THEN conjunct2, THEN conjunct1]
  have "safeParse RequestEnvelopeSchema ?send = Success ?send
        \<and> get ?send ''method'' = String ''message.send'' \<and> requiresIdempotencyKey ''message.send''
        \<and> get ?send ''idempotencyKey'' = Undefined \<longrightarrow>
        safeParseRequestEnvelope (\<lambda>z. ''invalid'') (Plain ?send)
          = Inr (success_false (new_IdempotencyKeyError ''message.send''))"
    .
  with s r have b: "safeParseRequestEnvelope (\<lambda>z. ''invalid'') (Plain ?send)
     = Inr (success_false (new_IdempotencyKeyError ''message.send''))"
    by simp
  from a b show ?thesis by (rule conjI)
qed

section \<open>Namespaced idempotency keys\<close>

text \<open>
  Claim C8. For all strings deviceId, method and clientKey, \<open>buildIdempotencyKey\<close>
  returns exactly deviceId, a colon, method, a colon and clientKey, in that order.
\<close>

theorem buildIdempotencyKey_concat:
  "buildIdempotencyKey deviceId method clientKey = deviceId @ '':'' @ method @ '':'' @ clientKey"
  by (simp add: buildIdempotencyKey_def)

theorem buildIdempotencyKey_concat_witness:
  "buildIdempotencyKey ''device-1'' ''message.send'' ''abc123'' = ''device-1:message.send:abc123''"
  using buildIdempotencyKey_concat [of "''device-1''" "''message.send''" "''abc123''"]
  by simp

text \<open>
  Claim C10. \<open>buildIdempotencyKey\<close> is not injective: two different triples, both
  with a method of the v1 surface, get the same namespaced key once a device id or a
  client key contains the separator.
\<close>

theorem buildIdempotencyKey_not_injective:
  "\<exists>d1 m1 k1 d2 m2 k2.
     (d1, m1, k1) \<noteq> (d2, m2, k2)
     \<and> m1 \<in> set RPC_METHODS \<and> m2 \<in> set RPC_METHODS
     \<and> buildIdempotencyKey d1 m1 k1 = buildIdempotencyKey d2 m2 k2"
proof -
  have "(''d:message.send'', ''agent.run'', ''k'') \<noteq> (''d'', ''message.send'', ''agent.run:k'')"
    by simp
  moreover have "''agent.run'' \<in> set RPC_METHODS" "''message.send'' \<in> set RPC_METHODS"
    by (simp_all add: RPC_METHODS_def)
  moreover have "buildIdempotencyKey ''d:message.send'' ''agent.run'' ''k''
      = buildIdempotencyKey ''d'' ''message.send'' ''agent.run:k''"
    by (simp add: buildIdempotencyKey_def)
  ultimately show ?thesis by blast
qed

end
